theory Spec2Isabelle
  imports Complex_Main
begin

section \<open>Broiler planning: the derivation engine and the farm scenarios\<close>

text \<open>
  The numeric module of the planning assistant has two exported operations,
  \<open>computeBroilerResults\<close> (the forward derivation) and \<open>buildFarmScenarios\<close>
  (the three rounding scenarios with the back-solved target), and one private
  helper, \<open>invertSn3ToSn1\<close>.

  Numbers. A finite JavaScript number is a rational, hence a real, and the model
  computes in \<^typ>\<open>real\<close> exactly: rounding and overflow of IEEE doubles are
  outside the model, and so are \<open>NaN\<close> and the infinities (the page that calls the
  module turns an input that is not a number into \<open>null\<close>, and
  \<open>computeBroilerResults\<close> does the same to every input that is not finite before
  it computes). A field of type \<open>number | null\<close> or \<open>number | undefined\<close> is a
  \<^typ>\<open>real option\<close>, with \<open>None\<close> for \<open>null\<close> and \<open>undefined\<close> (the source
  tests both with \<open>== null\<close>).
\<close>

subsection \<open>Data model\<close>

datatype UnitsModeKey = tonsPerYear_kgPerBird | kgPerYear_kgPerBird | meatTonsWithYield

record BroilerInputs =
  sn1TargetBroilerMeat :: "real option"
  sn2HarvestBirdAvgWeight :: "real option"
  sn4PlannedMortality :: "real option"
  sn6CycleTimeDays :: "real option"
  sn10FarmCapacity :: "real option"
  sn11NumberOfHouses :: "real option"
  sn12HouseArea :: "real option"
  yieldPercent :: "real option"

record BroilerConfig =
  unitsMode :: UnitsModeKey
  useYield :: bool
  useFullCyclesOnly :: bool
  useLeapYearCycles :: bool
  mortalityAsPercent :: bool

record BroilerResults =
  sn3HarvestBirdsNumber :: "real option"
  sn5OverallPlacement :: "real option"
  sn7CyclesPerYear :: "real option"
  sn8HarvestPerCycle :: "real option"
  sn9PlacementPerCycle :: "real option"
  sn13Density :: "real option"
  sn14NumberOfFarms :: "real option"
  hasDivisionByZero :: bool

text \<open>
  The fields of a scenario row carry the prefix \<open>row_\<close>: three of them have the
  name of a field of the inputs or of the results.
\<close>

record FarmsScenarioRow =
  row_label :: string
  row_farms :: "real option"
  row_sn1TargetBroilerMeat :: "real option"
  row_sn3HarvestBirdsNumber :: "real option"
  row_sn9PlacementPerCycle :: "real option"

subsection \<open>Number helpers\<close>

definition Number_isFinite :: "real \<Rightarrow> bool" where
  \<comment> \<open>\<open>Number.isFinite\<close>: every number of the model is finite.\<close>
  "Number_isFinite x = True"

definition Math_floor :: "real \<Rightarrow> real" where
  "Math_floor x = of_int \<lfloor>x\<rfloor>"

definition Math_ceil :: "real \<Rightarrow> real" where
  "Math_ceil x = of_int \<lceil>x\<rceil>"

definition safeNumber :: "real option \<Rightarrow> real option" where
  "safeNumber v = (case v of
       None \<Rightarrow> None
     | Some x \<Rightarrow> if Number_isFinite x then Some x else None)"

subsection \<open>Forward derivation\<close>

text \<open>
  \<open>computeBroilerResults\<close> is one function in the source: a sequence of blocks,
  each headed by a comment (\<open>// SN3\<close>, \<open>// SN5\<close>, ...), that assign one metric
  each and may set the mutable flag \<open>hasDivisionByZero\<close>. The model has one
  definition for each block. A block receives the flag as it stands and returns
  its metric together with the flag as the block leaves it.
\<close>

definition mortalityFraction :: "BroilerInputs \<Rightarrow> BroilerConfig \<Rightarrow> real option" where
  "mortalityFraction inputs config =
    (case sn4PlannedMortality inputs of
       None \<Rightarrow> None
     | Some raw \<Rightarrow>
         if mortalityAsPercent config
         then (if raw \<le> 0 then Some 0 else Some (raw / 100))
         else Some raw)"

definition mortalityValid :: "real option \<Rightarrow> bool" where
  "mortalityValid mf = (case mf of None \<Rightarrow> True | Some m \<Rightarrow> 0 \<le> m \<and> m < 1)"

definition block_SN3 :: "BroilerInputs \<Rightarrow> BroilerConfig \<Rightarrow> bool \<Rightarrow> real option \<times> bool" where
  "block_SN3 inputs config h =
    (case (sn1TargetBroilerMeat inputs, sn2HarvestBirdAvgWeight inputs) of
       (Some sn1, Some sn2) \<Rightarrow>
         if sn2 = 0 then (None, True)
         else
           (let birds =
              (if unitsMode config = tonsPerYear_kgPerBird then Some ((sn1 * 1000) / sn2)
               else if unitsMode config = kgPerYear_kgPerBird then Some (sn1 / sn2)
               else if unitsMode config = meatTonsWithYield \<and> useYield config then
                 (let yieldPct =
                    (case yieldPercent inputs of
                       None \<Rightarrow> None
                     | Some y \<Rightarrow> if y > 0 then Some y else None)
                  in case yieldPct of
                       None \<Rightarrow> None
                     | Some y \<Rightarrow> Some ((sn1 * 1000 * (100 / y)) / sn2))
               else None)
            in case birds of
                 None \<Rightarrow> (None, h)
               | Some b \<Rightarrow> if Number_isFinite b then (Some b, h) else (None, h))
     | _ \<Rightarrow> (None, h))"

definition block_SN5 :: "real option \<Rightarrow> real option \<Rightarrow> bool \<Rightarrow> real option \<times> bool" where
  "block_SN5 sn3 mf h =
    (case (sn3, mf) of
       (Some b, Some m) \<Rightarrow>
         (let denom = 1 - m
          in if denom = 0 then (None, True) else (Some (b / denom), h))
     | _ \<Rightarrow> (None, h))"

definition block_SN7 :: "BroilerInputs \<Rightarrow> BroilerConfig \<Rightarrow> bool \<Rightarrow> real option \<times> bool" where
  "block_SN7 inputs config h =
    (case sn6CycleTimeDays inputs of
       None \<Rightarrow> (None, h)
     | Some denom \<Rightarrow>
         (let daysPerYear = (if useLeapYearCycles config then 365.25 else 365)
          in if denom = 0 then (None, True)
             else
               (let v = daysPerYear / denom
                in (Some (if useFullCyclesOnly config then Math_floor v else v), h))))"

definition block_SN8 :: "real option \<Rightarrow> real option \<Rightarrow> bool \<Rightarrow> real option \<times> bool" where
  "block_SN8 sn3 sn7 h =
    (case (sn3, sn7) of
       (Some b, Some c) \<Rightarrow> if c = 0 then (None, True) else (Some (b / c), h)
     | _ \<Rightarrow> (None, h))"

definition block_SN9 :: "real option \<Rightarrow> real option \<Rightarrow> bool \<Rightarrow> real option \<times> bool" where
  "block_SN9 sn8 mf h =
    (case (sn8, mf) of
       (Some p, Some m) \<Rightarrow>
         (let denom = 1 - m
          in if denom = 0 then (None, True) else (Some (p / denom), h))
     | _ \<Rightarrow> (None, h))"

definition block_SN13 :: "BroilerInputs \<Rightarrow> bool \<Rightarrow> real option \<times> bool" where
  "block_SN13 inputs h =
    (case (sn10FarmCapacity inputs, sn11NumberOfHouses inputs, sn12HouseArea inputs) of
       (Some cap, Some houses, Some area) \<Rightarrow>
         (let denom = houses * area
          in if denom = 0 then (None, True) else (Some (cap / denom), h))
     | _ \<Rightarrow> (None, h))"

definition block_SN14 :: "real option \<Rightarrow> BroilerInputs \<Rightarrow> bool \<Rightarrow> real option \<times> bool" where
  "block_SN14 sn9 inputs h =
    (case (sn9, sn10FarmCapacity inputs) of
       (Some p, Some denom) \<Rightarrow>
         if denom = 0 then (None, True) else (Some (p / denom), h)
     | _ \<Rightarrow> (None, h))"

definition computeBroilerResults :: "BroilerInputs \<Rightarrow> BroilerConfig \<Rightarrow> BroilerResults" where
  "computeBroilerResults rawInputs config =
    (let inputs = \<lparr>
           sn1TargetBroilerMeat = safeNumber (sn1TargetBroilerMeat rawInputs),
           sn2HarvestBirdAvgWeight = safeNumber (sn2HarvestBirdAvgWeight rawInputs),
           sn4PlannedMortality = safeNumber (sn4PlannedMortality rawInputs),
           sn6CycleTimeDays = safeNumber (sn6CycleTimeDays rawInputs),
           sn10FarmCapacity = safeNumber (sn10FarmCapacity rawInputs),
           sn11NumberOfHouses = safeNumber (sn11NumberOfHouses rawInputs),
           sn12HouseArea = safeNumber (sn12HouseArea rawInputs),
           yieldPercent = safeNumber (yieldPercent rawInputs) \<rparr>;
         h0 = False;
         mf = mortalityFraction inputs config;
         (sn3, h3) = block_SN3 inputs config h0;
         (sn5, h5) = block_SN5 sn3 mf h3;
         (sn7, h7) = block_SN7 inputs config h5;
         (sn8, h8) = block_SN8 sn3 sn7 h7;
         (sn9, h9) = block_SN9 sn8 mf h8;
         (sn13, h13) = block_SN13 inputs h9;
         (sn14, h14) = block_SN14 sn9 inputs h13;
         h = (if \<not> mortalityValid mf then True else h14)
     in \<lparr> sn3HarvestBirdsNumber = sn3,
          sn5OverallPlacement = sn5,
          sn7CyclesPerYear = sn7,
          sn8HarvestPerCycle = sn8,
          sn9PlacementPerCycle = sn9,
          sn13Density = sn13,
          sn14NumberOfFarms = sn14,
          hasDivisionByZero = h \<rparr>)"

subsection \<open>Back-solving the target\<close>

definition invertSn3ToSn1 :: "real \<Rightarrow> BroilerInputs \<Rightarrow> BroilerConfig \<Rightarrow> real option" where
  "invertSn3ToSn1 sn3 inputs config =
    (case sn2HarvestBirdAvgWeight inputs of
       None \<Rightarrow> None
     | Some sn2 \<Rightarrow>
         if sn2 = 0 then None
         else if unitsMode config = tonsPerYear_kgPerBird then Some ((sn3 * sn2) / 1000)
         else if unitsMode config = kgPerYear_kgPerBird then Some (sn3 * sn2)
         else if unitsMode config = meatTonsWithYield \<and> useYield config then
           (case yieldPercent inputs of
              None \<Rightarrow> None
            | Some y \<Rightarrow>
                if y = 0 \<or> y \<le> 0 then None
                else Some ((sn3 * sn2 * y) / (100 * 1000)))
         else None)"

subsection \<open>Farm scenarios\<close>

text \<open>
  \<open>makeRowForFarms\<close> is a closure of \<open>buildFarmScenarios\<close> over \<open>inputs\<close>,
  \<open>config\<close>, \<open>sn10\<close>, \<open>mFraction\<close> and \<open>sn7\<close>; the model passes them as arguments.
\<close>

definition makeRowForFarms ::
  "BroilerInputs \<Rightarrow> BroilerConfig \<Rightarrow> real option \<Rightarrow> real option \<Rightarrow> real option
     \<Rightarrow> string \<Rightarrow> real option \<Rightarrow> FarmsScenarioRow" where
  "makeRowForFarms inputs config sn10 mFraction sn7 label farms =
    (let skipped = \<lparr> row_label = label, row_farms = farms,
                       row_sn1TargetBroilerMeat = None,
                       row_sn3HarvestBirdsNumber = None,
                       row_sn9PlacementPerCycle = None \<rparr>
     in case (farms, sn10, mFraction, sn7) of
          (Some f, Some cap, Some m, Some c) \<Rightarrow>
            if \<not> Number_isFinite f \<or> f \<le> 0 \<or> cap \<le> 0 \<or> m < 0 \<or> m \<ge> 1 \<or> c \<le> 0
            then skipped
            else
              (let sn9 = f * cap;
                   sn8 = sn9 * (1 - m);
                   sn3 = sn8 * c;
                   sn1 = invertSn3ToSn1 sn3 inputs config
               in \<lparr> row_label = label, row_farms = Some f,
                    row_sn1TargetBroilerMeat = sn1,
                    row_sn3HarvestBirdsNumber = Some sn3,
                    row_sn9PlacementPerCycle = Some sn9 \<rparr>)
        | _ \<Rightarrow> skipped)"

definition mFraction :: "BroilerInputs \<Rightarrow> BroilerConfig \<Rightarrow> real option" where
  \<comment> \<open>the constant \<open>mFraction\<close> of \<open>buildFarmScenarios\<close>: no clamp at zero here\<close>
  "mFraction inputs config =
    (case sn4PlannedMortality inputs of
       None \<Rightarrow> None
     | Some raw \<Rightarrow> if mortalityAsPercent config then Some (raw / 100) else Some raw)"

definition buildFarmScenarios ::
  "BroilerInputs \<Rightarrow> BroilerConfig \<Rightarrow> BroilerResults \<Rightarrow> FarmsScenarioRow list" where
  "buildFarmScenarios inputs config baseResults =
    (let baseFarms = sn14NumberOfFarms baseResults;
         mf = mFraction inputs config;
         sn7 = sn7CyclesPerYear baseResults;
         sn10 = sn10FarmCapacity inputs
     in [ makeRowForFarms inputs config sn10 mf sn7 ''Base (exact farms)'' baseFarms,
          makeRowForFarms inputs config sn10 mf sn7 ''Rounded up farms''
            (case baseFarms of None \<Rightarrow> None | Some b \<Rightarrow> Some (Math_ceil b)),
          makeRowForFarms inputs config sn10 mf sn7 ''Floored farms''
            (case baseFarms of None \<Rightarrow> None | Some b \<Rightarrow> Some (Math_floor b)) ])"

subsection \<open>Example data\<close>

text \<open>
  A plan of 500 tons a year with birds of 2.2 kg, 5 percent mortality, cycles of
  42 days and farms of 20000 birds in 4 houses of 1200 square metres.
\<close>

definition example_inputs :: BroilerInputs where
  "example_inputs = \<lparr>
     sn1TargetBroilerMeat = Some 500,
     sn2HarvestBirdAvgWeight = Some 2.2,
     sn4PlannedMortality = Some 5,
     sn6CycleTimeDays = Some 42,
     sn10FarmCapacity = Some 20000,
     sn11NumberOfHouses = Some 4,
     sn12HouseArea = Some 1200,
     yieldPercent = Some 72 \<rparr>"

definition example_config :: BroilerConfig where
  "example_config = \<lparr>
     unitsMode = tonsPerYear_kgPerBird,
     useYield = False,
     useFullCyclesOnly = False,
     useLeapYearCycles = False,
     mortalityAsPercent = True \<rparr>"

text \<open>
  A plan of one ton a year: 400 birds of 2.5 kg, five cycles of 73 days, 20 percent
  mortality, farms of 250 birds. It needs 0.4 farms.
\<close>

definition small_plan_inputs :: BroilerInputs where
  "small_plan_inputs = \<lparr>
     sn1TargetBroilerMeat = Some 1,
     sn2HarvestBirdAvgWeight = Some 2.5,
     sn4PlannedMortality = Some 20,
     sn6CycleTimeDays = Some 73,
     sn10FarmCapacity = Some 250,
     sn11NumberOfHouses = Some 1,
     sn12HouseArea = Some 100,
     yieldPercent = None \<rparr>"

subsection \<open>Inputs with fewer fields\<close>

text \<open>
  \<open>absent_more i' i\<close>: the inputs \<open>i'\<close> are the inputs \<open>i\<close> with some fields made
  absent. It serves to say what the absence of an input alone can do to a result.
\<close>

definition absent_more :: "BroilerInputs \<Rightarrow> BroilerInputs \<Rightarrow> bool" where
  "absent_more i' i \<longleftrightarrow>
     (sn1TargetBroilerMeat i' = None \<or> sn1TargetBroilerMeat i = sn1TargetBroilerMeat i')
   \<and> (sn2HarvestBirdAvgWeight i' = None \<or> sn2HarvestBirdAvgWeight i = sn2HarvestBirdAvgWeight i')
   \<and> (sn4PlannedMortality i' = None \<or> sn4PlannedMortality i = sn4PlannedMortality i')
   \<and> (sn6CycleTimeDays i' = None \<or> sn6CycleTimeDays i = sn6CycleTimeDays i')
   \<and> (sn10FarmCapacity i' = None \<or> sn10FarmCapacity i = sn10FarmCapacity i')
   \<and> (sn11NumberOfHouses i' = None \<or> sn11NumberOfHouses i = sn11NumberOfHouses i')
   \<and> (sn12HouseArea i' = None \<or> sn12HouseArea i = sn12HouseArea i')
   \<and> (yieldPercent i' = None \<or> yieldPercent i = yieldPercent i')"

section \<open>Properties\<close>

subsection \<open>The blocks of the forward derivation\<close>

lemma safeNumber_id: "safeNumber v = v"
  by (cases v) (simp_all add: safeNumber_def Number_isFinite_def)

lemma inputs_rebuild:
  "\<lparr> sn1TargetBroilerMeat = sn1TargetBroilerMeat i,
     sn2HarvestBirdAvgWeight = sn2HarvestBirdAvgWeight i,
     sn4PlannedMortality = sn4PlannedMortality i,
     sn6CycleTimeDays = sn6CycleTimeDays i,
     sn10FarmCapacity = sn10FarmCapacity i,
     sn11NumberOfHouses = sn11NumberOfHouses i,
     sn12HouseArea = sn12HouseArea i,
     yieldPercent = yieldPercent i \<rparr> = (i :: BroilerInputs)"
  by simp

lemma compute_blocks:
  "computeBroilerResults i c =
    (let mf = mortalityFraction i c;
         r3 = block_SN3 i c False;
         r5 = block_SN5 (fst r3) mf (snd r3);
         r7 = block_SN7 i c (snd r5);
         r8 = block_SN8 (fst r3) (fst r7) (snd r7);
         r9 = block_SN9 (fst r8) mf (snd r8);
         r13 = block_SN13 i (snd r9);
         r14 = block_SN14 (fst r9) i (snd r13)
     in \<lparr> sn3HarvestBirdsNumber = fst r3,
          sn5OverallPlacement = fst r5,
          sn7CyclesPerYear = fst r7,
          sn8HarvestPerCycle = fst r8,
          sn9PlacementPerCycle = fst r9,
          sn13Density = fst r13,
          sn14NumberOfFarms = fst r14,
          hasDivisionByZero = (\<not> mortalityValid mf \<or> snd r14) \<rparr>)"
  by (simp add: computeBroilerResults_def Let_def safeNumber_id inputs_rebuild case_prod_beta)

lemma fst_SN3:
  "fst (block_SN3 i c h) =
    (case (sn1TargetBroilerMeat i, sn2HarvestBirdAvgWeight i) of
       (Some t, Some w) \<Rightarrow>
         if w = 0 then None
         else (case unitsMode c of
                 tonsPerYear_kgPerBird \<Rightarrow> Some (t * 1000 / w)
               | kgPerYear_kgPerBird \<Rightarrow> Some (t / w)
               | meatTonsWithYield \<Rightarrow>
                   if useYield c then
                     (case yieldPercent i of
                        None \<Rightarrow> None
                      | Some y \<Rightarrow> if y > 0 then Some (t * 1000 * (100 / y) / w) else None)
                   else None)
     | _ \<Rightarrow> None)"
  by (auto simp: block_SN3_def Let_def Number_isFinite_def
           split: option.splits UnitsModeKey.splits)

lemma snd_SN3:
  "snd (block_SN3 i c h) \<longleftrightarrow>
     (sn1TargetBroilerMeat i \<noteq> None \<and> sn2HarvestBirdAvgWeight i = Some 0) \<or> h"
  by (auto simp: block_SN3_def Let_def split: option.splits)

lemma fst_SN5:
  "fst (block_SN5 s mf h) =
    (case (s, mf) of
       (Some b, Some m) \<Rightarrow> if m = 1 then None else Some (b / (1 - m))
     | _ \<Rightarrow> None)"
  by (auto simp: block_SN5_def Let_def split: option.splits)

lemma snd_SN5: "snd (block_SN5 s mf h) \<longleftrightarrow> (s \<noteq> None \<and> mf = Some 1) \<or> h"
  by (auto simp: block_SN5_def Let_def split: option.splits)

lemma fst_SN7:
  "fst (block_SN7 i c h) =
    (case sn6CycleTimeDays i of
       None \<Rightarrow> None
     | Some d \<Rightarrow>
         if d = 0 then None
         else Some (if useFullCyclesOnly c
                    then Math_floor ((if useLeapYearCycles c then 365.25 else 365) / d)
                    else (if useLeapYearCycles c then 365.25 else 365) / d))"
  by (auto simp: block_SN7_def Let_def split: option.splits)

lemma snd_SN7: "snd (block_SN7 i c h) \<longleftrightarrow> sn6CycleTimeDays i = Some 0 \<or> h"
  by (auto simp: block_SN7_def Let_def split: option.splits)

lemma fst_SN8:
  "fst (block_SN8 s s7 h) =
    (case (s, s7) of
       (Some b, Some n) \<Rightarrow> if n = 0 then None else Some (b / n)
     | _ \<Rightarrow> None)"
  by (auto simp: block_SN8_def split: option.splits)

lemma snd_SN8: "snd (block_SN8 s s7 h) \<longleftrightarrow> (s \<noteq> None \<and> s7 = Some 0) \<or> h"
  by (auto simp: block_SN8_def split: option.splits)

lemma fst_SN9:
  "fst (block_SN9 s mf h) =
    (case (s, mf) of
       (Some p, Some m) \<Rightarrow> if m = 1 then None else Some (p / (1 - m))
     | _ \<Rightarrow> None)"
  by (auto simp: block_SN9_def Let_def split: option.splits)

lemma snd_SN9: "snd (block_SN9 s mf h) \<longleftrightarrow> (s \<noteq> None \<and> mf = Some 1) \<or> h"
  by (auto simp: block_SN9_def Let_def split: option.splits)

lemma fst_SN13:
  "fst (block_SN13 i h) =
    (case (sn10FarmCapacity i, sn11NumberOfHouses i, sn12HouseArea i) of
       (Some cap, Some houses, Some area) \<Rightarrow>
         if houses * area = 0 then None else Some (cap / (houses * area))
     | _ \<Rightarrow> None)"
  by (auto simp: block_SN13_def Let_def split: option.splits)

lemma snd_SN13:
  "snd (block_SN13 i h) \<longleftrightarrow>
     (\<exists>cap houses area. sn10FarmCapacity i = Some cap \<and> sn11NumberOfHouses i = Some houses
         \<and> sn12HouseArea i = Some area \<and> houses * area = 0) \<or> h"
  by (auto simp: block_SN13_def Let_def split: option.splits)

lemma fst_SN14:
  "fst (block_SN14 s i h) =
    (case (s, sn10FarmCapacity i) of
       (Some p, Some cap) \<Rightarrow> if cap = 0 then None else Some (p / cap)
     | _ \<Rightarrow> None)"
  by (auto simp: block_SN14_def split: option.splits)

lemma snd_SN14:
  "snd (block_SN14 s i h) \<longleftrightarrow> (s \<noteq> None \<and> sn10FarmCapacity i = Some 0) \<or> h"
  by (auto simp: block_SN14_def split: option.splits)

text \<open>Each field of the result, from the inputs and the fields before it.\<close>

lemma compute_sn3:
  "sn3HarvestBirdsNumber (computeBroilerResults i c) = fst (block_SN3 i c False)"
  by (simp add: compute_blocks Let_def)

lemma compute_sn5:
  "sn5OverallPlacement (computeBroilerResults i c) =
    (case (sn3HarvestBirdsNumber (computeBroilerResults i c), mortalityFraction i c) of
       (Some b, Some m) \<Rightarrow> if m = 1 then None else Some (b / (1 - m))
     | _ \<Rightarrow> None)"
  by (simp add: compute_blocks Let_def fst_SN5)

lemma compute_sn7:
  "sn7CyclesPerYear (computeBroilerResults i c) =
    (case sn6CycleTimeDays i of
       None \<Rightarrow> None
     | Some d \<Rightarrow>
         if d = 0 then None
         else Some (if useFullCyclesOnly c
                    then Math_floor ((if useLeapYearCycles c then 365.25 else 365) / d)
                    else (if useLeapYearCycles c then 365.25 else 365) / d))"
  by (simp add: compute_blocks Let_def fst_SN7)

lemma compute_sn8:
  "sn8HarvestPerCycle (computeBroilerResults i c) =
    (case (sn3HarvestBirdsNumber (computeBroilerResults i c),
           sn7CyclesPerYear (computeBroilerResults i c)) of
       (Some b, Some n) \<Rightarrow> if n = 0 then None else Some (b / n)
     | _ \<Rightarrow> None)"
  by (simp add: compute_blocks Let_def fst_SN8)

lemma compute_sn9:
  "sn9PlacementPerCycle (computeBroilerResults i c) =
    (case (sn8HarvestPerCycle (computeBroilerResults i c), mortalityFraction i c) of
       (Some p, Some m) \<Rightarrow> if m = 1 then None else Some (p / (1 - m))
     | _ \<Rightarrow> None)"
  by (simp add: compute_blocks Let_def fst_SN9)

lemma compute_sn13:
  "sn13Density (computeBroilerResults i c) =
    (case (sn10FarmCapacity i, sn11NumberOfHouses i, sn12HouseArea i) of
       (Some cap, Some houses, Some area) \<Rightarrow>
         if houses * area = 0 then None else Some (cap / (houses * area))
     | _ \<Rightarrow> None)"
  by (simp add: compute_blocks Let_def fst_SN13)

lemma compute_sn14:
  "sn14NumberOfFarms (computeBroilerResults i c) =
    (case (sn9PlacementPerCycle (computeBroilerResults i c), sn10FarmCapacity i) of
       (Some p, Some cap) \<Rightarrow> if cap = 0 then None else Some (p / cap)
     | _ \<Rightarrow> None)"
  by (simp add: compute_blocks Let_def fst_SN14)

text \<open>
  The flag is raised by exactly eight events: seven zero denominators, each with the
  operands of its block present, and a mortality fraction outside \<open>[0, 1)\<close>.
\<close>

lemma compute_flag:
  "hasDivisionByZero (computeBroilerResults i c) \<longleftrightarrow>
     (sn1TargetBroilerMeat i \<noteq> None \<and> sn2HarvestBirdAvgWeight i = Some 0)
   \<or> (sn3HarvestBirdsNumber (computeBroilerResults i c) \<noteq> None \<and> mortalityFraction i c = Some 1)
   \<or> sn6CycleTimeDays i = Some 0
   \<or> (sn3HarvestBirdsNumber (computeBroilerResults i c) \<noteq> None
        \<and> sn7CyclesPerYear (computeBroilerResults i c) = Some 0)
   \<or> (sn8HarvestPerCycle (computeBroilerResults i c) \<noteq> None \<and> mortalityFraction i c = Some 1)
   \<or> (\<exists>cap houses area. sn10FarmCapacity i = Some cap \<and> sn11NumberOfHouses i = Some houses
         \<and> sn12HouseArea i = Some area \<and> houses * area = 0)
   \<or> (sn9PlacementPerCycle (computeBroilerResults i c) \<noteq> None \<and> sn10FarmCapacity i = Some 0)
   \<or> \<not> mortalityValid (mortalityFraction i c)"
  unfolding compute_blocks Let_def
  by (simp add: snd_SN3 snd_SN5 snd_SN7 snd_SN8 snd_SN9 snd_SN13 snd_SN14) blast

lemmas compute_fields =
  compute_sn3 fst_SN3 compute_sn5 compute_sn7 compute_sn8 compute_sn9 compute_sn13 compute_sn14

subsection \<open>Harvest birds\<close>

text \<open>
  Claim C4. With the target and the weight present and the weight not zero, the
  harvest-birds count follows the units mode: \<open>target * 1000 / weight\<close> in mode
  \<open>tonsPerYear_kgPerBird\<close>, \<open>target / weight\<close> in mode \<open>kgPerYear_kgPerBird\<close>, and
  \<open>target * 1000 * (100 / yieldPercent) / weight\<close> in mode \<open>meatTonsWithYield\<close> when
  \<open>useYield\<close> is on and the yield percent is present and positive. A target of 500
  with a weight of 2.2 in the first mode gives \<open>500 * 1000 / 2.2\<close>, which is
  227272.73 to two decimals.
\<close>

theorem C4_harvest_birds_per_units_mode:
  assumes "sn1TargetBroilerMeat i = Some t"
      and "sn2HarvestBirdAvgWeight i = Some w"
      and "w \<noteq> 0"
  shows "(unitsMode c = tonsPerYear_kgPerBird \<longrightarrow>
            sn3HarvestBirdsNumber (computeBroilerResults i c) = Some (t * 1000 / w))
       \<and> (unitsMode c = kgPerYear_kgPerBird \<longrightarrow>
            sn3HarvestBirdsNumber (computeBroilerResults i c) = Some (t / w))
       \<and> (\<forall>y. unitsMode c = meatTonsWithYield \<and> useYield c \<and> yieldPercent i = Some y \<and> 0 < y \<longrightarrow>
            sn3HarvestBirdsNumber (computeBroilerResults i c) = Some (t * 1000 * (100 / y) / w))
       \<and> (unitsMode c = tonsPerYear_kgPerBird \<and> t = 500 \<and> w = 2.2 \<longrightarrow>
            sn3HarvestBirdsNumber (computeBroilerResults i c) = Some (500 * 1000 / 2.2)
            \<and> \<bar>500 * 1000 / 2.2 - 227272.73 :: real\<bar> < 0.005)"
proof -
  have A: "unitsMode c = tonsPerYear_kgPerBird \<Longrightarrow>
             sn3HarvestBirdsNumber (computeBroilerResults i c) = Some (t * 1000 / w)"
    using assms by (simp add: compute_sn3 fst_SN3)
  have B: "unitsMode c = kgPerYear_kgPerBird \<Longrightarrow>
             sn3HarvestBirdsNumber (computeBroilerResults i c) = Some (t / w)"
    using assms by (simp add: compute_sn3 fst_SN3)
  have C: "unitsMode c = meatTonsWithYield \<and> useYield c \<and> yieldPercent i = Some y \<and> 0 < y \<Longrightarrow>
             sn3HarvestBirdsNumber (computeBroilerResults i c) = Some (t * 1000 * (100 / y) / w)" for y
    using assms by (simp add: compute_sn3 fst_SN3)
  have D: "\<bar>500 * 1000 / 2.2 - 227272.73 :: real\<bar> < 0.005"
    by simp
  show ?thesis
    using A B C D by blast
qed

theorem C4_witness:
  "sn3HarvestBirdsNumber (computeBroilerResults example_inputs example_config) = Some (2500000 / 11)
   \<and> sn3HarvestBirdsNumber (computeBroilerResults example_inputs
        (example_config\<lparr>unitsMode := kgPerYear_kgPerBird\<rparr>)) = Some (2500 / 11)
   \<and> sn3HarvestBirdsNumber (computeBroilerResults example_inputs
        (example_config\<lparr>unitsMode := meatTonsWithYield, useYield := True\<rparr>)) = Some (31250000 / 99)"
  using C4_harvest_birds_per_units_mode [of example_inputs 500 "2.2" example_config]
        C4_harvest_birds_per_units_mode [of example_inputs 500 "2.2"
           "example_config\<lparr>unitsMode := kgPerYear_kgPerBird\<rparr>"]
        C4_harvest_birds_per_units_mode [of example_inputs 500 "2.2"
           "example_config\<lparr>unitsMode := meatTonsWithYield, useYield := True\<rparr>"]
  by (simp add: example_inputs_def example_config_def)

text \<open>
  Claim C5. In mode \<open>tonsPerYear_kgPerBird\<close>, with the target \<open>t\<close> present and the
  weight \<open>w\<close> present and not zero, the forward derivation yields the birds count
  \<open>t * 1000 / w\<close>, and \<open>invertSn3ToSn1\<close> applied to that count returns \<open>t\<close>. The
  inversion computes the target from the birds count and the weight alone: it
  returns \<open>t\<close> on any inputs \<open>j\<close> with the weight \<open>w\<close>, whatever target they hold,
  the inputs \<open>i\<close> of the forward derivation among them. The arithmetic of the model
  is exact, so the round trip is an equality.
\<close>

theorem C5_round_trip_tons_per_year:
  assumes "unitsMode c = tonsPerYear_kgPerBird"
      and "sn1TargetBroilerMeat i = Some t"
      and "sn2HarvestBirdAvgWeight i = Some w"
      and "w \<noteq> 0"
  shows "sn3HarvestBirdsNumber (computeBroilerResults i c) = Some (t * 1000 / w)
       \<and> invertSn3ToSn1 (t * 1000 / w) i c = Some t
       \<and> (\<forall>j. sn2HarvestBirdAvgWeight j = Some w \<longrightarrow>
              invertSn3ToSn1 (t * 1000 / w) j c = Some t)
       \<and> (\<exists>b. sn3HarvestBirdsNumber (computeBroilerResults i c) = Some b
              \<and> invertSn3ToSn1 b i c = Some t)"
proof -
  have fwd: "sn3HarvestBirdsNumber (computeBroilerResults i c) = Some (t * 1000 / w)"
    using assms by (simp add: compute_sn3 fst_SN3)
  have inv: "invertSn3ToSn1 (t * 1000 / w) j c = Some t"
    if "sn2HarvestBirdAvgWeight j = Some w" for j
    using that assms(1,4) by (simp add: invertSn3ToSn1_def)
  have own: "invertSn3ToSn1 (t * 1000 / w) i c = Some t"
    using assms(3) by (rule inv)
  show ?thesis
    using fwd inv own by blast
qed

theorem C5_witness:
  "sn3HarvestBirdsNumber (computeBroilerResults example_inputs example_config)
     = Some (500 * 1000 / 2.2)
   \<and> invertSn3ToSn1 (500 * 1000 / 2.2) example_inputs example_config = Some 500
   \<and> invertSn3ToSn1 (500 * 1000 / 2.2)
       (example_inputs\<lparr>sn1TargetBroilerMeat := Some 7\<rparr>) example_config = Some 500
   \<and> invertSn3ToSn1 (500 * 1000 / 2.2)
       (example_inputs\<lparr>sn1TargetBroilerMeat := None\<rparr>) example_config = Some 500"
proof -
  have h: "unitsMode example_config = tonsPerYear_kgPerBird"
    "sn1TargetBroilerMeat example_inputs = Some 500"
    "sn2HarvestBirdAvgWeight example_inputs = Some 2.2"
    "(2.2 :: real) \<noteq> 0"
    by (simp_all add: example_inputs_def example_config_def)
  have w7: "sn2HarvestBirdAvgWeight (example_inputs\<lparr>sn1TargetBroilerMeat := Some 7\<rparr>) = Some 2.2"
    by (simp add: example_inputs_def)
  have w0: "sn2HarvestBirdAvgWeight (example_inputs\<lparr>sn1TargetBroilerMeat := None\<rparr>) = Some 2.2"
    by (simp add: example_inputs_def)
  show ?thesis
    using C5_round_trip_tons_per_year [OF h] w7 w0 by blast
qed

subsection \<open>Cycles per year\<close>

lemma floor_examples:
  "\<lfloor>365 / 42 :: real\<rfloor> = 8" "\<lfloor>365.25 / 42 :: real\<rfloor> = 8" "\<lfloor>365 / (- 42) :: real\<rfloor> = - 9"
  "\<bar>365 / 42 - 8.690 :: real\<bar> < 0.0005" "\<bar>365.25 / 42 - 8.696 :: real\<bar> < 0.0005"
  by simp_all

text \<open>
  Claim C9. For a cycle time that is present and not zero, cycles per year is the
  days of the year (365.25 with the leap-year toggle, 365 without) divided by the
  cycle time, and the quotient is floored exactly when the whole-cycles toggle is
  on. The floor is the mathematical one: a cycle time of \<open>- 42\<close> gives \<open>- 9\<close>, where
  truncation would give \<open>- 8\<close>. A cycle time of 42 gives \<open>365 / 42\<close>, about 8.690,
  with the leap-year toggle off, \<open>365.25 / 42\<close>, about 8.696, with it on, and 8 in
  both cases with whole cycles only.
\<close>

theorem C9_cycles_per_year:
  assumes "sn6CycleTimeDays i = Some d" and "d \<noteq> 0"
  shows "sn7CyclesPerYear (computeBroilerResults i c) =
           Some (if useFullCyclesOnly c
                 then of_int \<lfloor>(if useLeapYearCycles c then 365.25 else 365) / d\<rfloor>
                 else (if useLeapYearCycles c then 365.25 else 365) / d)
       \<and> (d = 42 \<and> \<not> useFullCyclesOnly c \<and> \<not> useLeapYearCycles c \<longrightarrow>
            sn7CyclesPerYear (computeBroilerResults i c) = Some (365 / 42)
            \<and> \<bar>365 / 42 - 8.690 :: real\<bar> < 0.0005)
       \<and> (d = 42 \<and> \<not> useFullCyclesOnly c \<and> useLeapYearCycles c \<longrightarrow>
            sn7CyclesPerYear (computeBroilerResults i c) = Some (365.25 / 42)
            \<and> \<bar>365.25 / 42 - 8.696 :: real\<bar> < 0.0005)
       \<and> (d = 42 \<and> useFullCyclesOnly c \<longrightarrow>
            sn7CyclesPerYear (computeBroilerResults i c) = Some 8)
       \<and> (d = - 42 \<and> useFullCyclesOnly c \<and> \<not> useLeapYearCycles c \<longrightarrow>
            sn7CyclesPerYear (computeBroilerResults i c) = Some (- 9))"
proof -
  have main: "sn7CyclesPerYear (computeBroilerResults i c) =
           Some (if useFullCyclesOnly c
                 then of_int \<lfloor>(if useLeapYearCycles c then 365.25 else 365) / d\<rfloor>
                 else (if useLeapYearCycles c then 365.25 else 365) / d)"
    using assms by (simp add: compute_sn7 Math_floor_def)
  show ?thesis
    unfolding main using floor_examples by auto
qed

theorem C9_witness:
  "sn7CyclesPerYear (computeBroilerResults example_inputs example_config) = Some (365 / 42)
   \<and> sn7CyclesPerYear (computeBroilerResults example_inputs
        (example_config\<lparr>useLeapYearCycles := True\<rparr>)) = Some (365.25 / 42)
   \<and> sn7CyclesPerYear (computeBroilerResults example_inputs
        (example_config\<lparr>useFullCyclesOnly := True\<rparr>)) = Some 8
   \<and> sn7CyclesPerYear (computeBroilerResults example_inputs
        (example_config\<lparr>useFullCyclesOnly := True, useLeapYearCycles := True\<rparr>)) = Some 8
   \<and> sn7CyclesPerYear (computeBroilerResults (example_inputs\<lparr>sn6CycleTimeDays := Some (- 42)\<rparr>)
        (example_config\<lparr>useFullCyclesOnly := True\<rparr>)) = Some (- 9)"
  using C9_cycles_per_year [of example_inputs 42 example_config]
        C9_cycles_per_year [of example_inputs 42 "example_config\<lparr>useLeapYearCycles := True\<rparr>"]
        C9_cycles_per_year [of example_inputs 42 "example_config\<lparr>useFullCyclesOnly := True\<rparr>"]
        C9_cycles_per_year [of example_inputs 42
           "example_config\<lparr>useFullCyclesOnly := True, useLeapYearCycles := True\<rparr>"]
        C9_cycles_per_year [of "example_inputs\<lparr>sn6CycleTimeDays := Some (- 42)\<rparr>" "- 42"
           "example_config\<lparr>useFullCyclesOnly := True\<rparr>"]
  by (simp add: example_inputs_def example_config_def)

subsection \<open>Zero denominators\<close>

text \<open>
  Claim C2. \<open>computeBroilerResults\<close> returns a result for every input and
  configuration: the source has no \<open>throw\<close>, it reads fields of its two arguments
  only, and a division by zero is no exception in JavaScript; accordingly the
  model is a function into \<open>BroilerResults\<close> with no error value. Whenever the
  operands of a block are present and its denominator is zero, the metric of the
  block is absent and \<open>hasDivisionByZero\<close> is true: a weight of zero (harvest
  birds), a cycle time of zero (cycles per year), zero cycles per year (harvest
  per cycle), houses times area zero (density) and a capacity of zero (farms).
  In particular a cycle time of zero leaves cycles per year absent with the flag
  true, and 2 houses of area 0 with a capacity of 100 leave the density absent
  with the flag true.
\<close>

theorem C2_zero_denominators:
  "(sn1TargetBroilerMeat i \<noteq> None \<and> sn2HarvestBirdAvgWeight i = Some 0 \<longrightarrow>
       sn3HarvestBirdsNumber (computeBroilerResults i c) = None
       \<and> hasDivisionByZero (computeBroilerResults i c))
   \<and> (sn6CycleTimeDays i = Some 0 \<longrightarrow>
       sn7CyclesPerYear (computeBroilerResults i c) = None
       \<and> hasDivisionByZero (computeBroilerResults i c))
   \<and> (sn3HarvestBirdsNumber (computeBroilerResults i c) \<noteq> None
       \<and> sn7CyclesPerYear (computeBroilerResults i c) = Some 0 \<longrightarrow>
       sn8HarvestPerCycle (computeBroilerResults i c) = None
       \<and> hasDivisionByZero (computeBroilerResults i c))
   \<and> (\<forall>cap houses area.
         sn10FarmCapacity i = Some cap \<and> sn11NumberOfHouses i = Some houses
         \<and> sn12HouseArea i = Some area \<and> houses * area = 0 \<longrightarrow>
       sn13Density (computeBroilerResults i c) = None
       \<and> hasDivisionByZero (computeBroilerResults i c))
   \<and> (sn9PlacementPerCycle (computeBroilerResults i c) \<noteq> None
       \<and> sn10FarmCapacity i = Some 0 \<longrightarrow>
       sn14NumberOfFarms (computeBroilerResults i c) = None
       \<and> hasDivisionByZero (computeBroilerResults i c))
   \<and> (sn11NumberOfHouses i = Some 2 \<and> sn12HouseArea i = Some 0
       \<and> sn10FarmCapacity i = Some 100 \<longrightarrow>
       sn13Density (computeBroilerResults i c) = None
       \<and> hasDivisionByZero (computeBroilerResults i c))"
proof -
  let ?r = "computeBroilerResults i c"
  have w: "sn1TargetBroilerMeat i \<noteq> None \<and> sn2HarvestBirdAvgWeight i = Some 0 \<Longrightarrow>
       sn3HarvestBirdsNumber ?r = None \<and> hasDivisionByZero ?r"
    by (auto simp: compute_sn3 fst_SN3 compute_flag)
  have d: "sn6CycleTimeDays i = Some 0 \<Longrightarrow> sn7CyclesPerYear ?r = None \<and> hasDivisionByZero ?r"
    by (simp add: compute_sn7 compute_flag)
  have n: "sn3HarvestBirdsNumber ?r \<noteq> None \<and> sn7CyclesPerYear ?r = Some 0 \<Longrightarrow>
       sn8HarvestPerCycle ?r = None \<and> hasDivisionByZero ?r"
    by (auto simp: compute_sn8 compute_flag)
  have a: "sn10FarmCapacity i = Some cap \<and> sn11NumberOfHouses i = Some houses
         \<and> sn12HouseArea i = Some area \<and> houses * area = 0 \<Longrightarrow>
       sn13Density ?r = None \<and> hasDivisionByZero ?r" for cap houses area
    by (auto simp: compute_sn13 compute_flag)
  have k: "sn9PlacementPerCycle ?r \<noteq> None \<and> sn10FarmCapacity i = Some 0 \<Longrightarrow>
       sn14NumberOfFarms ?r = None \<and> hasDivisionByZero ?r"
    by (auto simp: compute_sn14 compute_flag)
  show ?thesis
    using w d n a [of 100 2 0] a k by (intro conjI allI impI) simp_all
qed

theorem C2_witness:
  "sn3HarvestBirdsNumber
      (computeBroilerResults (example_inputs\<lparr>sn2HarvestBirdAvgWeight := Some 0\<rparr>) example_config) = None
   \<and> hasDivisionByZero
      (computeBroilerResults (example_inputs\<lparr>sn2HarvestBirdAvgWeight := Some 0\<rparr>) example_config)
   \<and> sn7CyclesPerYear
      (computeBroilerResults (example_inputs\<lparr>sn6CycleTimeDays := Some 0\<rparr>) example_config) = None
   \<and> hasDivisionByZero
      (computeBroilerResults (example_inputs\<lparr>sn6CycleTimeDays := Some 0\<rparr>) example_config)
   \<and> sn8HarvestPerCycle
      (computeBroilerResults (example_inputs\<lparr>sn6CycleTimeDays := Some 400\<rparr>)
         (example_config\<lparr>useFullCyclesOnly := True\<rparr>)) = None
   \<and> hasDivisionByZero
      (computeBroilerResults (example_inputs\<lparr>sn6CycleTimeDays := Some 400\<rparr>)
         (example_config\<lparr>useFullCyclesOnly := True\<rparr>))
   \<and> sn13Density
      (computeBroilerResults
         (example_inputs\<lparr>sn10FarmCapacity := Some 100, sn11NumberOfHouses := Some 2,
            sn12HouseArea := Some 0\<rparr>) example_config) = None
   \<and> hasDivisionByZero
      (computeBroilerResults
         (example_inputs\<lparr>sn10FarmCapacity := Some 100, sn11NumberOfHouses := Some 2,
            sn12HouseArea := Some 0\<rparr>) example_config)
   \<and> sn14NumberOfFarms
      (computeBroilerResults (example_inputs\<lparr>sn10FarmCapacity := Some 0\<rparr>) example_config) = None
   \<and> hasDivisionByZero
      (computeBroilerResults (example_inputs\<lparr>sn10FarmCapacity := Some 0\<rparr>) example_config)"
proof -
  have h3: "sn3HarvestBirdsNumber (computeBroilerResults (example_inputs\<lparr>sn6CycleTimeDays := Some 400\<rparr>)
         (example_config\<lparr>useFullCyclesOnly := True\<rparr>)) \<noteq> None
       \<and> sn7CyclesPerYear (computeBroilerResults (example_inputs\<lparr>sn6CycleTimeDays := Some 400\<rparr>)
         (example_config\<lparr>useFullCyclesOnly := True\<rparr>)) = Some 0"
    by (simp add: compute_fields Math_floor_def example_inputs_def example_config_def)
  have h9: "sn9PlacementPerCycle
      (computeBroilerResults (example_inputs\<lparr>sn10FarmCapacity := Some 0\<rparr>) example_config) \<noteq> None
      \<and> sn10FarmCapacity (example_inputs\<lparr>sn10FarmCapacity := Some 0\<rparr>) = Some 0"
    by (simp add: compute_fields mortalityFraction_def example_inputs_def example_config_def)
  show ?thesis
    using C2_zero_denominators [of "example_inputs\<lparr>sn2HarvestBirdAvgWeight := Some 0\<rparr>" example_config]
          C2_zero_denominators [of "example_inputs\<lparr>sn6CycleTimeDays := Some 0\<rparr>" example_config]
          C2_zero_denominators [of "example_inputs\<lparr>sn6CycleTimeDays := Some 400\<rparr>"
             "example_config\<lparr>useFullCyclesOnly := True\<rparr>"]
          C2_zero_denominators [of "example_inputs\<lparr>sn10FarmCapacity := Some 100,
             sn11NumberOfHouses := Some 2, sn12HouseArea := Some 0\<rparr>" example_config]
          C2_zero_denominators [of "example_inputs\<lparr>sn10FarmCapacity := Some 0\<rparr>" example_config]
          h3 h9
    by (simp add: example_inputs_def)
qed

subsection \<open>Absent inputs\<close>

lemma flag_needs_present_value:
  assumes "hasDivisionByZero (computeBroilerResults i c)"
  shows "sn2HarvestBirdAvgWeight i = Some 0
       \<or> sn6CycleTimeDays i = Some 0
       \<or> sn7CyclesPerYear (computeBroilerResults i c) = Some 0
       \<or> sn10FarmCapacity i = Some 0
       \<or> (\<exists>houses area. sn11NumberOfHouses i = Some houses \<and> sn12HouseArea i = Some area
             \<and> houses * area = 0)
       \<or> (\<exists>m. mortalityFraction i c = Some m \<and> \<not> (0 \<le> m \<and> m < 1))"
proof -
  have "mortalityFraction i c = Some 1 \<Longrightarrow> \<exists>m. mortalityFraction i c = Some m \<and> \<not> (0 \<le> m \<and> m < 1)"
    by simp
  moreover have "\<not> mortalityValid (mortalityFraction i c) \<Longrightarrow>
     \<exists>m. mortalityFraction i c = Some m \<and> \<not> (0 \<le> m \<and> m < 1)"
    by (cases "mortalityFraction i c") (simp_all add: mortalityValid_def)
  ultimately show ?thesis
    using assms unfolding compute_flag by blast
qed

lemma mortalityFraction_mono:
  "absent_more i' i \<Longrightarrow> mortalityFraction i' c = None \<or> mortalityFraction i c = mortalityFraction i' c"
  by (cases "sn4PlannedMortality i'") (simp_all add: absent_more_def mortalityFraction_def)

lemma mortalityValid_None: "mortalityValid None"
  by (simp add: mortalityValid_def)

lemma block_SN3_mono:
  assumes "absent_more i' i" and "h' \<longrightarrow> h"
  shows "(fst (block_SN3 i' c h') = None \<or> fst (block_SN3 i' c h') = fst (block_SN3 i c h))
       \<and> (snd (block_SN3 i' c h') \<longrightarrow> snd (block_SN3 i c h))"
proof -
  from assms(1) have
    "sn1TargetBroilerMeat i' = None \<or> sn1TargetBroilerMeat i = sn1TargetBroilerMeat i'"
    "sn2HarvestBirdAvgWeight i' = None \<or> sn2HarvestBirdAvgWeight i = sn2HarvestBirdAvgWeight i'"
    "yieldPercent i' = None \<or> yieldPercent i = yieldPercent i'"
    by (simp_all add: absent_more_def)
  then show ?thesis
    using assms(2)
    by (cases "sn1TargetBroilerMeat i'"; cases "sn2HarvestBirdAvgWeight i'"; cases "yieldPercent i'";
        simp add: fst_SN3 snd_SN3 split: option.splits UnitsModeKey.splits)
qed

lemma block_SN5_mono:
  assumes "s' = None \<or> s' = s" and "m' = None \<or> m' = m" and "h' \<longrightarrow> h"
  shows "(fst (block_SN5 s' m' h') = None \<or> fst (block_SN5 s' m' h') = fst (block_SN5 s m h))
       \<and> (snd (block_SN5 s' m' h') \<longrightarrow> snd (block_SN5 s m h))"
  using assms by (cases s'; cases m'; simp add: fst_SN5 snd_SN5 split: option.splits)

lemma block_SN7_mono:
  assumes "absent_more i' i" and "h' \<longrightarrow> h"
  shows "(fst (block_SN7 i' c h') = None \<or> fst (block_SN7 i' c h') = fst (block_SN7 i c h))
       \<and> (snd (block_SN7 i' c h') \<longrightarrow> snd (block_SN7 i c h))"
proof -
  from assms(1) have
    "sn6CycleTimeDays i' = None \<or> sn6CycleTimeDays i = sn6CycleTimeDays i'"
    by (simp add: absent_more_def)
  then show ?thesis
    using assms(2)
    by (cases "sn6CycleTimeDays i'"; simp add: fst_SN7 snd_SN7 split: option.splits)
qed

lemma block_SN8_mono:
  assumes "s' = None \<or> s' = s" and "n' = None \<or> n' = n" and "h' \<longrightarrow> h"
  shows "(fst (block_SN8 s' n' h') = None \<or> fst (block_SN8 s' n' h') = fst (block_SN8 s n h))
       \<and> (snd (block_SN8 s' n' h') \<longrightarrow> snd (block_SN8 s n h))"
  using assms by (cases s'; cases n'; simp add: fst_SN8 snd_SN8 split: option.splits)

lemma block_SN9_mono:
  assumes "s' = None \<or> s' = s" and "m' = None \<or> m' = m" and "h' \<longrightarrow> h"
  shows "(fst (block_SN9 s' m' h') = None \<or> fst (block_SN9 s' m' h') = fst (block_SN9 s m h))
       \<and> (snd (block_SN9 s' m' h') \<longrightarrow> snd (block_SN9 s m h))"
  using assms by (cases s'; cases m'; simp add: fst_SN9 snd_SN9 split: option.splits)

lemma block_SN13_mono:
  assumes "absent_more i' i" and "h' \<longrightarrow> h"
  shows "(fst (block_SN13 i' h') = None \<or> fst (block_SN13 i' h') = fst (block_SN13 i h))
       \<and> (snd (block_SN13 i' h') \<longrightarrow> snd (block_SN13 i h))"
proof -
  from assms(1) have
    "sn10FarmCapacity i' = None \<or> sn10FarmCapacity i = sn10FarmCapacity i'"
    "sn11NumberOfHouses i' = None \<or> sn11NumberOfHouses i = sn11NumberOfHouses i'"
    "sn12HouseArea i' = None \<or> sn12HouseArea i = sn12HouseArea i'"
    by (simp_all add: absent_more_def)
  then show ?thesis
    using assms(2)
    by (cases "sn10FarmCapacity i'"; cases "sn11NumberOfHouses i'"; cases "sn12HouseArea i'";
        simp add: fst_SN13 snd_SN13 split: option.splits)
qed

lemma block_SN14_mono:
  assumes "absent_more i' i" and "s' = None \<or> s' = s" and "h' \<longrightarrow> h"
  shows "(fst (block_SN14 s' i' h') = None \<or> fst (block_SN14 s' i' h') = fst (block_SN14 s i h))
       \<and> (snd (block_SN14 s' i' h') \<longrightarrow> snd (block_SN14 s i h))"
proof -
  from assms(1) have
    "sn10FarmCapacity i' = None \<or> sn10FarmCapacity i = sn10FarmCapacity i'"
    by (simp add: absent_more_def)
  then show ?thesis
    using assms(2,3)
    by (cases "sn10FarmCapacity i'"; cases s'; simp add: fst_SN14 snd_SN14 split: option.splits)
qed

lemma compute_mono:
  assumes "absent_more i' i"
  shows "(sn3HarvestBirdsNumber (computeBroilerResults i' c) = None
            \<or> sn3HarvestBirdsNumber (computeBroilerResults i' c)
                = sn3HarvestBirdsNumber (computeBroilerResults i c))
       \<and> (sn5OverallPlacement (computeBroilerResults i' c) = None
            \<or> sn5OverallPlacement (computeBroilerResults i' c)
                = sn5OverallPlacement (computeBroilerResults i c))
       \<and> (sn7CyclesPerYear (computeBroilerResults i' c) = None
            \<or> sn7CyclesPerYear (computeBroilerResults i' c)
                = sn7CyclesPerYear (computeBroilerResults i c))
       \<and> (sn8HarvestPerCycle (computeBroilerResults i' c) = None
            \<or> sn8HarvestPerCycle (computeBroilerResults i' c)
                = sn8HarvestPerCycle (computeBroilerResults i c))
       \<and> (sn9PlacementPerCycle (computeBroilerResults i' c) = None
            \<or> sn9PlacementPerCycle (computeBroilerResults i' c)
                = sn9PlacementPerCycle (computeBroilerResults i c))
       \<and> (sn13Density (computeBroilerResults i' c) = None
            \<or> sn13Density (computeBroilerResults i' c)
                = sn13Density (computeBroilerResults i c))
       \<and> (sn14NumberOfFarms (computeBroilerResults i' c) = None
            \<or> sn14NumberOfFarms (computeBroilerResults i' c)
                = sn14NumberOfFarms (computeBroilerResults i c))
       \<and> (hasDivisionByZero (computeBroilerResults i' c)
            \<longrightarrow> hasDivisionByZero (computeBroilerResults i c))"
proof -
  define mf' mf where "mf' = mortalityFraction i' c" and "mf = mortalityFraction i c"
  define r3' r3 where "r3' = block_SN3 i' c False" and "r3 = block_SN3 i c False"
  define r5' r5 where "r5' = block_SN5 (fst r3') mf' (snd r3')"
    and "r5 = block_SN5 (fst r3) mf (snd r3)"
  define r7' r7 where "r7' = block_SN7 i' c (snd r5')" and "r7 = block_SN7 i c (snd r5)"
  define r8' r8 where "r8' = block_SN8 (fst r3') (fst r7') (snd r7')"
    and "r8 = block_SN8 (fst r3) (fst r7) (snd r7)"
  define r9' r9 where "r9' = block_SN9 (fst r8') mf' (snd r8')"
    and "r9 = block_SN9 (fst r8) mf (snd r8)"
  define r13' r13 where "r13' = block_SN13 i' (snd r9')" and "r13 = block_SN13 i (snd r9)"
  define r14' r14 where "r14' = block_SN14 (fst r9') i' (snd r13')"
    and "r14 = block_SN14 (fst r9) i (snd r13)"
  note defs = mf'_def mf_def r3'_def r3_def r5'_def r5_def r7'_def r7_def r8'_def r8_def
    r9'_def r9_def r13'_def r13_def r14'_def r14_def
  have m: "mf' = None \<or> mf' = mf"
    using mortalityFraction_mono [OF assms, of c] by (auto simp: mf'_def mf_def)
  have b3: "(fst r3' = None \<or> fst r3' = fst r3) \<and> (snd r3' \<longrightarrow> snd r3)"
    unfolding r3'_def r3_def by (rule block_SN3_mono [OF assms]) simp
  have b5: "(fst r5' = None \<or> fst r5' = fst r5) \<and> (snd r5' \<longrightarrow> snd r5)"
    unfolding r5'_def r5_def using b3 m by (intro block_SN5_mono) simp_all
  have b7: "(fst r7' = None \<or> fst r7' = fst r7) \<and> (snd r7' \<longrightarrow> snd r7)"
    unfolding r7'_def r7_def using b5 by (intro block_SN7_mono assms) simp
  have b8: "(fst r8' = None \<or> fst r8' = fst r8) \<and> (snd r8' \<longrightarrow> snd r8)"
    unfolding r8'_def r8_def using b3 b7 by (intro block_SN8_mono) simp_all
  have b9: "(fst r9' = None \<or> fst r9' = fst r9) \<and> (snd r9' \<longrightarrow> snd r9)"
    unfolding r9'_def r9_def using b8 m by (intro block_SN9_mono) simp_all
  have b13: "(fst r13' = None \<or> fst r13' = fst r13) \<and> (snd r13' \<longrightarrow> snd r13)"
    unfolding r13'_def r13_def using b9 by (intro block_SN13_mono assms) simp
  have b14: "(fst r14' = None \<or> fst r14' = fst r14) \<and> (snd r14' \<longrightarrow> snd r14)"
    unfolding r14'_def r14_def using b9 b13 by (intro block_SN14_mono assms) simp_all
  have v: "\<not> mortalityValid mf' \<or> snd r14' \<longrightarrow> \<not> mortalityValid mf \<or> snd r14"
    using m b14 mortalityValid_None by auto
  have R': "computeBroilerResults i' c =
     \<lparr> sn3HarvestBirdsNumber = fst r3', sn5OverallPlacement = fst r5',
       sn7CyclesPerYear = fst r7', sn8HarvestPerCycle = fst r8',
       sn9PlacementPerCycle = fst r9', sn13Density = fst r13',
       sn14NumberOfFarms = fst r14',
       hasDivisionByZero = (\<not> mortalityValid mf' \<or> snd r14') \<rparr>"
    unfolding defs compute_blocks Let_def ..
  have R: "computeBroilerResults i c =
     \<lparr> sn3HarvestBirdsNumber = fst r3, sn5OverallPlacement = fst r5,
       sn7CyclesPerYear = fst r7, sn8HarvestPerCycle = fst r8,
       sn9PlacementPerCycle = fst r9, sn13Density = fst r13,
       sn14NumberOfFarms = fst r14,
       hasDivisionByZero = (\<not> mortalityValid mf \<or> snd r14) \<rparr>"
    unfolding defs compute_blocks Let_def ..
  show ?thesis
    unfolding R R' using b3 b5 b7 b8 b9 b13 b14 v by simp
qed

lemma sn5_None_if: "sn3HarvestBirdsNumber (computeBroilerResults i c) = None \<or> sn4PlannedMortality i = None
   \<Longrightarrow> sn5OverallPlacement (computeBroilerResults i c) = None"
  by (auto simp: compute_sn5 mortalityFraction_def split: option.splits)

lemma sn8_None_if: "sn3HarvestBirdsNumber (computeBroilerResults i c) = None
     \<or> sn7CyclesPerYear (computeBroilerResults i c) = None
   \<Longrightarrow> sn8HarvestPerCycle (computeBroilerResults i c) = None"
  by (auto simp: compute_sn8 split: option.splits)

lemma sn9_None_if: "sn8HarvestPerCycle (computeBroilerResults i c) = None \<or> sn4PlannedMortality i = None
   \<Longrightarrow> sn9PlacementPerCycle (computeBroilerResults i c) = None"
  by (auto simp: compute_sn9 mortalityFraction_def split: option.splits)

lemma sn14_None_if: "sn9PlacementPerCycle (computeBroilerResults i c) = None \<or> sn10FarmCapacity i = None
   \<Longrightarrow> sn14NumberOfFarms (computeBroilerResults i c) = None"
  by (auto simp: compute_sn14 split: option.splits)

lemma sn3_None_if: "sn1TargetBroilerMeat i = None \<or> sn2HarvestBirdAvgWeight i = None
     \<or> (unitsMode c = meatTonsWithYield \<and> yieldPercent i = None)
   \<Longrightarrow> sn3HarvestBirdsNumber (computeBroilerResults i c) = None"
  by (auto simp: compute_sn3 fst_SN3 split: option.splits)

lemma sn7_None_if: "sn6CycleTimeDays i = None \<Longrightarrow> sn7CyclesPerYear (computeBroilerResults i c) = None"
  by (simp add: compute_sn7)

lemma sn13_None_if: "sn10FarmCapacity i = None \<or> sn11NumberOfHouses i = None \<or> sn12HouseArea i = None
   \<Longrightarrow> sn13Density (computeBroilerResults i c) = None"
  by (auto simp: compute_sn13 split: option.splits)

text \<open>
  Claim C3. When an operand of a block is absent, the metric of the block and every
  metric downstream of it are absent: first for the inputs (target, weight, and
  the yield percent in the yield mode; mortality; cycle time; capacity; houses and
  area), then for the metrics that are operands of later blocks. The absence of an
  input alone never raises the flag: if the flag is raised on inputs \<open>i'\<close> that are
  the inputs \<open>i\<close> with some fields made absent, it is raised on \<open>i\<close> too; and whenever
  the flag is raised, an input denominator or the cycles per year is present and
  zero, or the mortality fraction is present and outside \<open>[0, 1)\<close>.
\<close>

theorem C3_absence_propagation:
  "(sn1TargetBroilerMeat i = None \<or> sn2HarvestBirdAvgWeight i = None
      \<or> (unitsMode c = meatTonsWithYield \<and> yieldPercent i = None) \<longrightarrow>
        sn3HarvestBirdsNumber (computeBroilerResults i c) = None
      \<and> sn5OverallPlacement (computeBroilerResults i c) = None
      \<and> sn8HarvestPerCycle (computeBroilerResults i c) = None
      \<and> sn9PlacementPerCycle (computeBroilerResults i c) = None
      \<and> sn14NumberOfFarms (computeBroilerResults i c) = None)
   \<and> (sn4PlannedMortality i = None \<longrightarrow>
        sn5OverallPlacement (computeBroilerResults i c) = None
      \<and> sn9PlacementPerCycle (computeBroilerResults i c) = None
      \<and> sn14NumberOfFarms (computeBroilerResults i c) = None)
   \<and> (sn6CycleTimeDays i = None \<longrightarrow>
        sn7CyclesPerYear (computeBroilerResults i c) = None
      \<and> sn8HarvestPerCycle (computeBroilerResults i c) = None
      \<and> sn9PlacementPerCycle (computeBroilerResults i c) = None
      \<and> sn14NumberOfFarms (computeBroilerResults i c) = None)
   \<and> (sn10FarmCapacity i = None \<longrightarrow>
        sn13Density (computeBroilerResults i c) = None
      \<and> sn14NumberOfFarms (computeBroilerResults i c) = None)
   \<and> (sn11NumberOfHouses i = None \<or> sn12HouseArea i = None \<longrightarrow>
        sn13Density (computeBroilerResults i c) = None)
   \<and> (sn3HarvestBirdsNumber (computeBroilerResults i c) = None \<longrightarrow>
        sn5OverallPlacement (computeBroilerResults i c) = None
      \<and> sn8HarvestPerCycle (computeBroilerResults i c) = None
      \<and> sn9PlacementPerCycle (computeBroilerResults i c) = None
      \<and> sn14NumberOfFarms (computeBroilerResults i c) = None)
   \<and> (sn7CyclesPerYear (computeBroilerResults i c) = None \<longrightarrow>
        sn8HarvestPerCycle (computeBroilerResults i c) = None
      \<and> sn9PlacementPerCycle (computeBroilerResults i c) = None
      \<and> sn14NumberOfFarms (computeBroilerResults i c) = None)
   \<and> (sn8HarvestPerCycle (computeBroilerResults i c) = None \<longrightarrow>
        sn9PlacementPerCycle (computeBroilerResults i c) = None
      \<and> sn14NumberOfFarms (computeBroilerResults i c) = None)
   \<and> (sn9PlacementPerCycle (computeBroilerResults i c) = None \<longrightarrow>
        sn14NumberOfFarms (computeBroilerResults i c) = None)
   \<and> (absent_more i' i \<and> hasDivisionByZero (computeBroilerResults i' c) \<longrightarrow>
        hasDivisionByZero (computeBroilerResults i c))
   \<and> (hasDivisionByZero (computeBroilerResults i c) \<longrightarrow>
        sn2HarvestBirdAvgWeight i = Some 0
      \<or> sn6CycleTimeDays i = Some 0
      \<or> sn7CyclesPerYear (computeBroilerResults i c) = Some 0
      \<or> sn10FarmCapacity i = Some 0
      \<or> (\<exists>houses area. sn11NumberOfHouses i = Some houses \<and> sn12HouseArea i = Some area
            \<and> houses * area = 0)
      \<or> (\<exists>m. mortalityFraction i c = Some m \<and> \<not> (0 \<le> m \<and> m < 1)))"
  using sn3_None_if [of i c] sn5_None_if [of i c] sn7_None_if [of i c] sn8_None_if [of i c]
    sn9_None_if [of i c] sn13_None_if [of i c] sn14_None_if [of i c]
    compute_mono [of i' i c] flag_needs_present_value [of i c]
  by blast

theorem C3_witness:
  "sn3HarvestBirdsNumber
     (computeBroilerResults (example_inputs\<lparr>sn1TargetBroilerMeat := None\<rparr>) example_config) = None
   \<and> sn14NumberOfFarms
     (computeBroilerResults (example_inputs\<lparr>sn1TargetBroilerMeat := None\<rparr>) example_config) = None
   \<and> \<not> hasDivisionByZero
     (computeBroilerResults (example_inputs\<lparr>sn1TargetBroilerMeat := None\<rparr>) example_config)
   \<and> sn5OverallPlacement
     (computeBroilerResults (example_inputs\<lparr>sn4PlannedMortality := None\<rparr>) example_config) = None
   \<and> sn14NumberOfFarms
     (computeBroilerResults (example_inputs\<lparr>sn4PlannedMortality := None\<rparr>) example_config) = None
   \<and> sn7CyclesPerYear
     (computeBroilerResults (example_inputs\<lparr>sn6CycleTimeDays := None\<rparr>) example_config) = None
   \<and> sn14NumberOfFarms
     (computeBroilerResults (example_inputs\<lparr>sn6CycleTimeDays := None\<rparr>) example_config) = None
   \<and> sn13Density
     (computeBroilerResults (example_inputs\<lparr>sn10FarmCapacity := None\<rparr>) example_config) = None
   \<and> sn14NumberOfFarms
     (computeBroilerResults (example_inputs\<lparr>sn10FarmCapacity := None\<rparr>) example_config) = None
   \<and> sn13Density
     (computeBroilerResults (example_inputs\<lparr>sn12HouseArea := None\<rparr>) example_config) = None
   \<and> hasDivisionByZero
     (computeBroilerResults (example_inputs\<lparr>sn6CycleTimeDays := Some 0\<rparr>) example_config)
   \<and> hasDivisionByZero
     (computeBroilerResults
        (example_inputs\<lparr>sn1TargetBroilerMeat := None, sn6CycleTimeDays := Some 0\<rparr>) example_config)"
proof -
  have ok: "\<not> hasDivisionByZero (computeBroilerResults example_inputs example_config)"
    by (simp add: compute_flag compute_fields mortalityFraction_def mortalityValid_def
          example_inputs_def example_config_def)
  have am: "absent_more (example_inputs\<lparr>sn1TargetBroilerMeat := None\<rparr>) example_inputs"
    by (simp add: absent_more_def)
  have z: "hasDivisionByZero
     (computeBroilerResults
        (example_inputs\<lparr>sn1TargetBroilerMeat := None, sn6CycleTimeDays := Some 0\<rparr>) example_config)"
    by (simp add: compute_flag example_inputs_def)
  have am2: "absent_more (example_inputs\<lparr>sn1TargetBroilerMeat := None, sn6CycleTimeDays := Some 0\<rparr>)
     (example_inputs\<lparr>sn6CycleTimeDays := Some 0\<rparr>)"
    by (simp add: absent_more_def)
  show ?thesis
    using C3_absence_propagation [of "example_inputs\<lparr>sn1TargetBroilerMeat := None\<rparr>"
            example_config "example_inputs\<lparr>sn1TargetBroilerMeat := None\<rparr>"]
          C3_absence_propagation [of example_inputs example_config
            "example_inputs\<lparr>sn1TargetBroilerMeat := None\<rparr>"]
          C3_absence_propagation [of "example_inputs\<lparr>sn6CycleTimeDays := Some 0\<rparr>" example_config
            "example_inputs\<lparr>sn1TargetBroilerMeat := None, sn6CycleTimeDays := Some 0\<rparr>"]
          C3_absence_propagation [of "example_inputs\<lparr>sn4PlannedMortality := None\<rparr>"
            example_config "example_inputs\<lparr>sn4PlannedMortality := None\<rparr>"]
          C3_absence_propagation [of "example_inputs\<lparr>sn6CycleTimeDays := None\<rparr>"
            example_config "example_inputs\<lparr>sn6CycleTimeDays := None\<rparr>"]
          C3_absence_propagation [of "example_inputs\<lparr>sn10FarmCapacity := None\<rparr>"
            example_config "example_inputs\<lparr>sn10FarmCapacity := None\<rparr>"]
          C3_absence_propagation [of "example_inputs\<lparr>sn12HouseArea := None\<rparr>"
            example_config "example_inputs\<lparr>sn12HouseArea := None\<rparr>"]
          ok am z am2
    by (simp add: example_inputs_def)
qed

subsection \<open>Yield mode without a usable yield percent\<close>

text \<open>
  Claim C8. In mode \<open>meatTonsWithYield\<close> with \<open>useYield\<close> on, the target present
  and the weight present and not zero, a yield percent that is absent or not
  positive leaves the harvest-birds count absent, and with it everything
  downstream (overall placement, harvest per cycle, placement per cycle, farms).
  The condition does not set the flag: the flag is then raised exactly by the
  events that do not involve the birds count, a cycle time of zero, houses times
  area zero, or a mortality fraction outside \<open>[0, 1)\<close>.
\<close>

theorem C8_yield_missing_or_not_positive:
  assumes "unitsMode c = meatTonsWithYield" and "useYield c"
      and "sn1TargetBroilerMeat i = Some t"
      and "sn2HarvestBirdAvgWeight i = Some w" and "w \<noteq> 0"
      and "yieldPercent i = None \<or> (\<exists>y. yieldPercent i = Some y \<and> y \<le> 0)"
  shows "sn3HarvestBirdsNumber (computeBroilerResults i c) = None
       \<and> sn5OverallPlacement (computeBroilerResults i c) = None
       \<and> sn8HarvestPerCycle (computeBroilerResults i c) = None
       \<and> sn9PlacementPerCycle (computeBroilerResults i c) = None
       \<and> sn14NumberOfFarms (computeBroilerResults i c) = None
       \<and> (hasDivisionByZero (computeBroilerResults i c) \<longleftrightarrow>
            sn6CycleTimeDays i = Some 0
          \<or> (\<exists>cap houses area. sn10FarmCapacity i = Some cap \<and> sn11NumberOfHouses i = Some houses
                \<and> sn12HouseArea i = Some area \<and> houses * area = 0)
          \<or> \<not> mortalityValid (mortalityFraction i c))"
proof -
  let ?r = "computeBroilerResults i c"
  have s3: "sn3HarvestBirdsNumber ?r = None"
    using assms by (auto simp: compute_sn3 fst_SN3)
  have s5: "sn5OverallPlacement ?r = None"
    using s3 by (simp add: sn5_None_if)
  have s8: "sn8HarvestPerCycle ?r = None"
    using s3 by (simp add: sn8_None_if)
  have s9: "sn9PlacementPerCycle ?r = None"
    using s8 by (simp add: sn9_None_if)
  have s14: "sn14NumberOfFarms ?r = None"
    using s9 by (simp add: sn14_None_if)
  have fl: "hasDivisionByZero ?r \<longleftrightarrow>
            sn6CycleTimeDays i = Some 0
          \<or> (\<exists>cap houses area. sn10FarmCapacity i = Some cap \<and> sn11NumberOfHouses i = Some houses
                \<and> sn12HouseArea i = Some area \<and> houses * area = 0)
          \<or> \<not> mortalityValid (mortalityFraction i c)"
    unfolding compute_flag [of i c] using s3 s8 s9 assms(4,5) by simp
  show ?thesis
    using s3 s5 s8 s9 s14 fl by blast
qed

theorem C8_witness:
  "sn3HarvestBirdsNumber (computeBroilerResults (example_inputs\<lparr>yieldPercent := None\<rparr>)
      (example_config\<lparr>unitsMode := meatTonsWithYield, useYield := True\<rparr>)) = None
   \<and> \<not> hasDivisionByZero (computeBroilerResults (example_inputs\<lparr>yieldPercent := None\<rparr>)
      (example_config\<lparr>unitsMode := meatTonsWithYield, useYield := True\<rparr>))
   \<and> sn3HarvestBirdsNumber (computeBroilerResults (example_inputs\<lparr>yieldPercent := Some 0\<rparr>)
      (example_config\<lparr>unitsMode := meatTonsWithYield, useYield := True\<rparr>)) = None
   \<and> \<not> hasDivisionByZero (computeBroilerResults (example_inputs\<lparr>yieldPercent := Some 0\<rparr>)
      (example_config\<lparr>unitsMode := meatTonsWithYield, useYield := True\<rparr>))"
  using C8_yield_missing_or_not_positive [of
          "example_config\<lparr>unitsMode := meatTonsWithYield, useYield := True\<rparr>"
          "example_inputs\<lparr>yieldPercent := None\<rparr>" 500 "2.2"]
        C8_yield_missing_or_not_positive [of
          "example_config\<lparr>unitsMode := meatTonsWithYield, useYield := True\<rparr>"
          "example_inputs\<lparr>yieldPercent := Some 0\<rparr>" 500 "2.2"]
  by (simp add: example_inputs_def example_config_def mortalityFraction_def mortalityValid_def)

subsection \<open>Mortality out of range\<close>

text \<open>
  Claim C1 says that a mortality fraction outside \<open>[0, 1)\<close> sets the flag and
  leaves overall placement, placement per cycle and farms absent, and the comment
  at the end of \<open>computeBroilerResults\<close> says the same (flag, but keep values
  null). The blocks SN5 and SN9 test only whether \<open>1 - fraction\<close> is zero, so the
  metrics are absent for a fraction of exactly 1 only. With a mortality of 150
  percent the fraction is 1.5: the flag is set, and the three metrics are present
  and negative.
\<close>

theorem C1_mortality_above_one_keeps_metrics:
  "hasDivisionByZero
     (computeBroilerResults (example_inputs\<lparr>sn4PlannedMortality := Some 150\<rparr>) example_config)
   \<and> sn5OverallPlacement
     (computeBroilerResults (example_inputs\<lparr>sn4PlannedMortality := Some 150\<rparr>) example_config)
       = Some (- 5000000 / 11)
   \<and> sn9PlacementPerCycle
     (computeBroilerResults (example_inputs\<lparr>sn4PlannedMortality := Some 150\<rparr>) example_config)
       = Some (- 42000000 / 803)
   \<and> sn14NumberOfFarms
     (computeBroilerResults (example_inputs\<lparr>sn4PlannedMortality := Some 150\<rparr>) example_config)
       = Some (- 2100 / 803)"
  by (simp add: compute_flag compute_fields mortalityFraction_def mortalityValid_def
        example_inputs_def example_config_def)

subsection \<open>Scenario rows\<close>

lemma makeRow_None:
  assumes "farms = None \<or> sn10 = None \<or> mf = None \<or> sn7 = None"
  shows "makeRowForFarms i c sn10 mf sn7 label farms =
           \<lparr> row_label = label, row_farms = farms,
             row_sn1TargetBroilerMeat = None,
             row_sn3HarvestBirdsNumber = None,
             row_sn9PlacementPerCycle = None \<rparr>"
  using assms by (auto simp: makeRowForFarms_def Let_def split: option.splits)

lemma makeRow_Some:
  "makeRowForFarms i c (Some cap) (Some m) (Some n) label (Some f) =
     (if f \<le> 0 \<or> cap \<le> 0 \<or> m < 0 \<or> 1 \<le> m \<or> n \<le> 0
      then \<lparr> row_label = label, row_farms = Some f,
             row_sn1TargetBroilerMeat = None,
             row_sn3HarvestBirdsNumber = None,
             row_sn9PlacementPerCycle = None \<rparr>
      else \<lparr> row_label = label, row_farms = Some f,
             row_sn1TargetBroilerMeat = invertSn3ToSn1 (f * cap * (1 - m) * n) i c,
             row_sn3HarvestBirdsNumber = Some (f * cap * (1 - m) * n),
             row_sn9PlacementPerCycle = Some (f * cap) \<rparr>)"
  by (simp add: makeRowForFarms_def Let_def Number_isFinite_def)

lemma makeRow_skipped:
  assumes "\<not> (\<exists>f cap m n. farms = Some f \<and> 0 < f \<and> sn10 = Some cap \<and> 0 < cap
               \<and> mf = Some m \<and> 0 \<le> m \<and> m < 1 \<and> sn7 = Some n \<and> 0 < n)"
  shows "makeRowForFarms i c sn10 mf sn7 label farms =
           \<lparr> row_label = label, row_farms = farms,
             row_sn1TargetBroilerMeat = None,
             row_sn3HarvestBirdsNumber = None,
             row_sn9PlacementPerCycle = None \<rparr>"
proof (cases "farms = None \<or> sn10 = None \<or> mf = None \<or> sn7 = None")
  case True
  then show ?thesis
    by (rule makeRow_None)
next
  case False
  then obtain f cap m n where v: "farms = Some f" "sn10 = Some cap" "mf = Some m" "sn7 = Some n"
    by auto
  with assms have "\<not> (0 < f \<and> 0 < cap \<and> 0 \<le> m \<and> m < 1 \<and> 0 < n)"
    by simp
  then have "f \<le> 0 \<or> cap \<le> 0 \<or> m < 0 \<or> 1 \<le> m \<or> n \<le> 0"
    by linarith
  then show ?thesis
    unfolding v makeRow_Some by simp
qed

lemma makeRow_computed:
  assumes "farms = Some f" "0 < f" "sn10 = Some cap" "0 < cap"
      and "mf = Some m" "0 \<le> m" "m < 1" "sn7 = Some n" "0 < n"
  shows "makeRowForFarms i c sn10 mf sn7 label farms =
           \<lparr> row_label = label, row_farms = Some f,
             row_sn1TargetBroilerMeat = invertSn3ToSn1 (f * cap * (1 - m) * n) i c,
             row_sn3HarvestBirdsNumber = Some (f * cap * (1 - m) * n),
             row_sn9PlacementPerCycle = Some (f * cap) \<rparr>"
proof -
  have "\<not> (f \<le> 0 \<or> cap \<le> 0 \<or> m < 0 \<or> 1 \<le> m \<or> n \<le> 0)"
    using assms by linarith
  then show ?thesis
    unfolding assms(1,3,5,8) makeRow_Some by simp
qed

lemma makeRow_label: "row_label (makeRowForFarms i c sn10 mf sn7 label farms) = label"
proof (cases "farms = None \<or> sn10 = None \<or> mf = None \<or> sn7 = None")
  case True
  then show ?thesis
    by (simp add: makeRow_None)
next
  case False
  then obtain f cap m n where v: "farms = Some f" "sn10 = Some cap" "mf = Some m" "sn7 = Some n"
    by auto
  show ?thesis
    unfolding v makeRow_Some by simp
qed

lemma makeRow_farms: "row_farms (makeRowForFarms i c sn10 mf sn7 label farms) = farms"
proof (cases "farms = None \<or> sn10 = None \<or> mf = None \<or> sn7 = None")
  case True
  then show ?thesis
    by (simp add: makeRow_None)
next
  case False
  then obtain f cap m n where v: "farms = Some f" "sn10 = Some cap" "mf = Some m" "sn7 = Some n"
    by auto
  show ?thesis
    unfolding v makeRow_Some by simp
qed

lemma build_rows:
  "buildFarmScenarios i c b =
     [ makeRowForFarms i c (sn10FarmCapacity i) (mFraction i c) (sn7CyclesPerYear b)
         ''Base (exact farms)'' (sn14NumberOfFarms b),
       makeRowForFarms i c (sn10FarmCapacity i) (mFraction i c) (sn7CyclesPerYear b)
         ''Rounded up farms'' (map_option (\<lambda>x. of_int \<lceil>x\<rceil>) (sn14NumberOfFarms b)),
       makeRowForFarms i c (sn10FarmCapacity i) (mFraction i c) (sn7CyclesPerYear b)
         ''Floored farms'' (map_option (\<lambda>x. of_int \<lfloor>x\<rfloor>) (sn14NumberOfFarms b)) ]"
  by (cases "sn14NumberOfFarms b")
     (simp_all add: buildFarmScenarios_def Let_def Math_ceil_def Math_floor_def)

lemma small_plan_results:
  "computeBroilerResults small_plan_inputs example_config =
     \<lparr> sn3HarvestBirdsNumber = Some 400, sn5OverallPlacement = Some 500,
       sn7CyclesPerYear = Some 5, sn8HarvestPerCycle = Some 80,
       sn9PlacementPerCycle = Some 100, sn13Density = Some (5 / 2),
       sn14NumberOfFarms = Some (2 / 5), hasDivisionByZero = False \<rparr>"
  by (simp add: compute_blocks Let_def fst_SN3 snd_SN3 fst_SN5 snd_SN5 fst_SN7 snd_SN7
        fst_SN8 snd_SN8 fst_SN9 snd_SN9 fst_SN13 snd_SN13 fst_SN14 snd_SN14
        mortalityFraction_def mortalityValid_def small_plan_inputs_def example_config_def)

lemma skipped_fields:
  assumes "\<not> (\<exists>x cap m n. f = Some x \<and> 0 < x \<and> sn10 = Some cap \<and> 0 < cap
               \<and> mf = Some m \<and> 0 \<le> m \<and> m < 1 \<and> sn7 = Some n \<and> 0 < n)"
  shows "row_sn1TargetBroilerMeat (makeRowForFarms i c sn10 mf sn7 label f) = None
       \<and> row_sn3HarvestBirdsNumber (makeRowForFarms i c sn10 mf sn7 label f) = None
       \<and> row_sn9PlacementPerCycle (makeRowForFarms i c sn10 mf sn7 label f) = None"
  unfolding makeRow_skipped [OF assms] by simp

text \<open>
  Claim C7. The three rows of \<open>buildFarmScenarios\<close> are built for the candidate farm
  counts: the base farms needed, its ceiling and its floor (each absent when the
  base is absent). Every row carries its candidate in \<open>farms\<close>. Unless the
  candidate is present and positive, the capacity present and positive, the
  mortality fraction of the scenarios (\<open>mFraction\<close>) present and in \<open>[0, 1)\<close>, and
  the cycles per year present and positive, the target, the birds and the
  placement per cycle of the row are null. Every number of the model is finite.
\<close>

theorem C7_rows_failing_the_guard:
  "list_all2
     (\<lambda>f r. row_farms r = f
        \<and> (\<not> (\<exists>x cap m n. f = Some x \<and> 0 < x
                  \<and> sn10FarmCapacity i = Some cap \<and> 0 < cap
                  \<and> mFraction i c = Some m \<and> 0 \<le> m \<and> m < 1
                  \<and> sn7CyclesPerYear b = Some n \<and> 0 < n) \<longrightarrow>
             row_sn1TargetBroilerMeat r = None
           \<and> row_sn3HarvestBirdsNumber r = None
           \<and> row_sn9PlacementPerCycle r = None))
     [ sn14NumberOfFarms b,
       map_option (\<lambda>x. of_int \<lceil>x\<rceil>) (sn14NumberOfFarms b),
       map_option (\<lambda>x. of_int \<lfloor>x\<rfloor>) (sn14NumberOfFarms b) ]
     (buildFarmScenarios i c b)"
proof -
  let ?mk = "makeRowForFarms i c (sn10FarmCapacity i) (mFraction i c) (sn7CyclesPerYear b)"
  have B: "row_sn1TargetBroilerMeat (?mk l f) = None
         \<and> row_sn3HarvestBirdsNumber (?mk l f) = None
         \<and> row_sn9PlacementPerCycle (?mk l f) = None"
    if "\<not> (\<exists>x cap m n. f = Some x \<and> 0 < x
                  \<and> sn10FarmCapacity i = Some cap \<and> 0 < cap
                  \<and> mFraction i c = Some m \<and> 0 \<le> m \<and> m < 1
                  \<and> sn7CyclesPerYear b = Some n \<and> 0 < n)" for l f
    using that by (rule skipped_fields)
  show ?thesis
    unfolding build_rows list_all2_Cons list_all2_Nil makeRow_farms
    using B by blast
qed

lemma small_plan_floor_row:
  "buildFarmScenarios small_plan_inputs example_config
       (computeBroilerResults small_plan_inputs example_config) ! 2 =
     \<lparr> row_label = ''Floored farms'', row_farms = Some 0,
       row_sn1TargetBroilerMeat = None,
       row_sn3HarvestBirdsNumber = None,
       row_sn9PlacementPerCycle = None \<rparr>"
proof -
  have f: "sn14NumberOfFarms (computeBroilerResults small_plan_inputs example_config) = Some (2 / 5)"
    by (simp add: small_plan_results)
  have "buildFarmScenarios small_plan_inputs example_config
       (computeBroilerResults small_plan_inputs example_config) ! 2 =
     makeRowForFarms small_plan_inputs example_config (sn10FarmCapacity small_plan_inputs)
       (mFraction small_plan_inputs example_config)
       (sn7CyclesPerYear (computeBroilerResults small_plan_inputs example_config))
       ''Floored farms'' (Some 0)"
    unfolding build_rows f by simp
  also have "\<dots> = \<lparr> row_label = ''Floored farms'', row_farms = Some 0,
       row_sn1TargetBroilerMeat = None,
       row_sn3HarvestBirdsNumber = None,
       row_sn9PlacementPerCycle = None \<rparr>"
    by (rule makeRow_skipped) simp
  finally show ?thesis .
qed

theorem C7_witness:
  "row_farms (buildFarmScenarios small_plan_inputs example_config
       (computeBroilerResults small_plan_inputs example_config) ! 2) = Some 0
   \<and> row_sn1TargetBroilerMeat (buildFarmScenarios small_plan_inputs example_config
       (computeBroilerResults small_plan_inputs example_config) ! 2) = None
   \<and> row_sn3HarvestBirdsNumber (buildFarmScenarios small_plan_inputs example_config
       (computeBroilerResults small_plan_inputs example_config) ! 2) = None
   \<and> row_sn9PlacementPerCycle (buildFarmScenarios small_plan_inputs example_config
       (computeBroilerResults small_plan_inputs example_config) ! 2) = None"
proof -
  let ?b = "computeBroilerResults small_plan_inputs example_config"
  let ?rows = "buildFarmScenarios small_plan_inputs example_config ?b"
  have f: "sn14NumberOfFarms ?b = Some (2 / 5)"
    by (simp add: small_plan_results)
  have c: "[ sn14NumberOfFarms ?b,
       map_option (\<lambda>x. of_int \<lceil>x\<rceil>) (sn14NumberOfFarms ?b),
       map_option (\<lambda>x. of_int \<lfloor>x\<rfloor>) (sn14NumberOfFarms ?b) ] ! 2 = Some (0::real)"
    unfolding f by simp
  have g: "\<not> (\<exists>x cap m n. Some (0::real) = Some x \<and> 0 < x
                  \<and> sn10FarmCapacity small_plan_inputs = Some cap \<and> 0 < cap
                  \<and> mFraction small_plan_inputs example_config = Some m \<and> 0 \<le> m \<and> m < 1
                  \<and> sn7CyclesPerYear ?b = Some n \<and> 0 < n)"
    by simp
  show ?thesis
    using list_all2_nthD [OF C7_rows_failing_the_guard
            [where i = small_plan_inputs and c = example_config
               and b = "computeBroilerResults small_plan_inputs example_config"], of 2] g
    unfolding c by simp
qed

text \<open>
  Claim C6, as stated, gives every row a placement per cycle of its own farm count
  times the capacity. The guard of \<open>makeRowForFarms\<close> comes first: for the plan
  that needs 0.4 farms the floored row has a farm count of 0 and a capacity of 250,
  and its placement per cycle is null, not \<open>0 * 250\<close>.
\<close>

theorem C6_counterexample:
  "sn14NumberOfFarms (computeBroilerResults small_plan_inputs example_config) = Some 0.4
   \<and> sn10FarmCapacity small_plan_inputs = Some 250
   \<and> row_farms (buildFarmScenarios small_plan_inputs example_config
       (computeBroilerResults small_plan_inputs example_config) ! 2) = Some 0
   \<and> row_sn9PlacementPerCycle (buildFarmScenarios small_plan_inputs example_config
       (computeBroilerResults small_plan_inputs example_config) ! 2) = None
   \<and> row_sn9PlacementPerCycle (buildFarmScenarios small_plan_inputs example_config
       (computeBroilerResults small_plan_inputs example_config) ! 2) \<noteq> Some (0 * 250)"
proof -
  have a: "sn14NumberOfFarms (computeBroilerResults small_plan_inputs example_config) = Some 0.4"
    by (simp add: small_plan_results)
  have b: "sn10FarmCapacity small_plan_inputs = Some 250"
    by (simp add: small_plan_inputs_def)
  show ?thesis
    using a b by (simp add: small_plan_floor_row)
qed

lemma makeRow_sn9_computed:
  assumes "\<exists>f cap m n. farms = Some f \<and> 0 < f \<and> sn10 = Some cap \<and> 0 < cap
          \<and> mf = Some m \<and> 0 \<le> m \<and> m < 1 \<and> sn7 = Some n \<and> 0 < n"
  shows "\<exists>f cap. farms = Some f \<and> sn10 = Some cap
           \<and> row_sn9PlacementPerCycle (makeRowForFarms i c sn10 mf sn7 label farms) = Some (f * cap)"
proof -
  from assms obtain f cap m n where v: "farms = Some f" "0 < f" "sn10 = Some cap" "0 < cap"
      "mf = Some m" "0 \<le> m" "m < 1" "sn7 = Some n" "0 < n"
    by blast
  have "row_sn9PlacementPerCycle (makeRowForFarms i c sn10 mf sn7 label farms) = Some (f * cap)"
    unfolding makeRow_computed [OF v] by simp
  with v(1,3) show ?thesis
    by blast
qed

lemma makeRow_sn9_skipped:
  assumes "\<not> (\<exists>f cap m n. farms = Some f \<and> 0 < f \<and> sn10 = Some cap \<and> 0 < cap
          \<and> mf = Some m \<and> 0 \<le> m \<and> m < 1 \<and> sn7 = Some n \<and> 0 < n)"
  shows "row_sn9PlacementPerCycle (makeRowForFarms i c sn10 mf sn7 label farms) = None"
  unfolding makeRow_skipped [OF assms] by simp

lemma makeRow_own_farms:
  "(row_sn9PlacementPerCycle (makeRowForFarms i c sn10 mf sn7 label farms) \<noteq> None \<longleftrightarrow>
      (\<exists>f cap m n. farms = Some f \<and> 0 < f \<and> sn10 = Some cap \<and> 0 < cap
          \<and> mf = Some m \<and> 0 \<le> m \<and> m < 1 \<and> sn7 = Some n \<and> 0 < n))
   \<and> (\<forall>p. row_sn9PlacementPerCycle (makeRowForFarms i c sn10 mf sn7 label farms) = Some p \<longrightarrow>
          (\<exists>f cap. farms = Some f \<and> sn10 = Some cap \<and> p = f * cap))"
proof (cases "\<exists>f cap m n. farms = Some f \<and> 0 < f \<and> sn10 = Some cap \<and> 0 < cap
          \<and> mf = Some m \<and> 0 \<le> m \<and> m < 1 \<and> sn7 = Some n \<and> 0 < n")
  case True
  from makeRow_sn9_computed [OF True, of i c label]
  obtain f cap where v: "farms = Some f" "sn10 = Some cap"
      "row_sn9PlacementPerCycle (makeRowForFarms i c sn10 mf sn7 label farms) = Some (f * cap)"
    by blast
  have a: "row_sn9PlacementPerCycle (makeRowForFarms i c sn10 mf sn7 label farms) \<noteq> None"
    unfolding v(3) by simp
  have b: "\<exists>f cap. farms = Some f \<and> sn10 = Some cap \<and> p = f * cap"
    if "row_sn9PlacementPerCycle (makeRowForFarms i c sn10 mf sn7 label farms) = Some p" for p
  proof -
    from that have "p = f * cap"
      unfolding v(3) by simp
    with v(1,2) show ?thesis
      by blast
  qed
  show ?thesis
  proof (intro conjI allI impI iffI)
    show "\<exists>f cap m n. farms = Some f \<and> 0 < f \<and> sn10 = Some cap \<and> 0 < cap
          \<and> mf = Some m \<and> 0 \<le> m \<and> m < 1 \<and> sn7 = Some n \<and> 0 < n"
      by (rule True)
    show "row_sn9PlacementPerCycle (makeRowForFarms i c sn10 mf sn7 label farms) \<noteq> None"
      by (rule a)
    show "\<exists>f cap. farms = Some f \<and> sn10 = Some cap \<and> p = f * cap"
      if "row_sn9PlacementPerCycle (makeRowForFarms i c sn10 mf sn7 label farms) = Some p" for p
      using that by (rule b)
  qed
next
  case False
  have s: "row_sn9PlacementPerCycle (makeRowForFarms i c sn10 mf sn7 label farms) = None"
    by (rule makeRow_sn9_skipped [OF False])
  show ?thesis
  proof (intro conjI allI impI iffI)
    assume "row_sn9PlacementPerCycle (makeRowForFarms i c sn10 mf sn7 label farms) \<noteq> None"
    with s show "\<exists>f cap m n. farms = Some f \<and> 0 < f \<and> sn10 = Some cap \<and> 0 < cap
          \<and> mf = Some m \<and> 0 \<le> m \<and> m < 1 \<and> sn7 = Some n \<and> 0 < n"
      by simp
  next
    assume "\<exists>f cap m n. farms = Some f \<and> 0 < f \<and> sn10 = Some cap \<and> 0 < cap
          \<and> mf = Some m \<and> 0 \<le> m \<and> m < 1 \<and> sn7 = Some n \<and> 0 < n"
    with False show "row_sn9PlacementPerCycle (makeRowForFarms i c sn10 mf sn7 label farms) \<noteq> None"
      by (rule notE)
  next
    fix p
    assume "row_sn9PlacementPerCycle (makeRowForFarms i c sn10 mf sn7 label farms) = Some p"
    with s show "\<exists>f cap. farms = Some f \<and> sn10 = Some cap \<and> p = f * cap"
      by simp
  qed
qed

text \<open>
  Claim C6, amended. \<open>buildFarmScenarios\<close> returns exactly three rows, labelled
  for the exact, the rounded-up and the floored farm count, whose farm counts are
  the base farms needed, its ceiling and its floor. The placement per cycle of a
  row is present exactly when the row passes the guard (farm count positive,
  capacity present and positive, scenario mortality fraction in \<open>[0, 1)\<close>, cycles
  per year present and positive), and then it is the row's own farm count times
  the capacity. Exact farms of 2.4 give 3 in the rounded-up row and 2 in the
  floored row.
\<close>

theorem C6_three_rows_own_farm_count:
  "length (buildFarmScenarios i c b) = 3
   \<and> map row_label (buildFarmScenarios i c b) =
        [''Base (exact farms)'', ''Rounded up farms'', ''Floored farms'']
   \<and> map row_farms (buildFarmScenarios i c b) =
        [ sn14NumberOfFarms b,
          map_option (\<lambda>x. of_int \<lceil>x\<rceil>) (sn14NumberOfFarms b),
          map_option (\<lambda>x. of_int \<lfloor>x\<rfloor>) (sn14NumberOfFarms b) ]
   \<and> (\<forall>r \<in> set (buildFarmScenarios i c b).
         (row_sn9PlacementPerCycle r \<noteq> None \<longleftrightarrow>
            (\<exists>f cap m n. row_farms r = Some f \<and> 0 < f
                \<and> sn10FarmCapacity i = Some cap \<and> 0 < cap
                \<and> mFraction i c = Some m \<and> 0 \<le> m \<and> m < 1
                \<and> sn7CyclesPerYear b = Some n \<and> 0 < n))
       \<and> (\<forall>p. row_sn9PlacementPerCycle r = Some p \<longrightarrow>
            (\<exists>f cap. row_farms r = Some f \<and> sn10FarmCapacity i = Some cap \<and> p = f * cap)))
   \<and> (sn14NumberOfFarms b = Some 2.4 \<longrightarrow>
         map row_farms (buildFarmScenarios i c b) = [Some 2.4, Some 3, Some 2])"
proof -
  let ?mk = "makeRowForFarms i c (sn10FarmCapacity i) (mFraction i c) (sn7CyclesPerYear b)"
  have own: "(row_sn9PlacementPerCycle (?mk l f) \<noteq> None \<longleftrightarrow>
            (\<exists>x cap m n. row_farms (?mk l f) = Some x \<and> 0 < x
                \<and> sn10FarmCapacity i = Some cap \<and> 0 < cap
                \<and> mFraction i c = Some m \<and> 0 \<le> m \<and> m < 1
                \<and> sn7CyclesPerYear b = Some n \<and> 0 < n))
       \<and> (\<forall>p. row_sn9PlacementPerCycle (?mk l f) = Some p \<longrightarrow>
            (\<exists>x cap. row_farms (?mk l f) = Some x \<and> sn10FarmCapacity i = Some cap \<and> p = x * cap))"
    for l f
    unfolding makeRow_farms by (rule makeRow_own_farms)
  have len: "length (buildFarmScenarios i c b) = 3"
    by (simp add: build_rows)
  have lab: "map row_label (buildFarmScenarios i c b) =
        [''Base (exact farms)'', ''Rounded up farms'', ''Floored farms'']"
    by (simp add: build_rows makeRow_label)
  have fms: "map row_farms (buildFarmScenarios i c b) =
        [ sn14NumberOfFarms b,
          map_option (\<lambda>x. of_int \<lceil>x\<rceil>) (sn14NumberOfFarms b),
          map_option (\<lambda>x. of_int \<lfloor>x\<rfloor>) (sn14NumberOfFarms b) ]"
    by (simp add: build_rows makeRow_farms)
  have rows: "\<forall>r \<in> set (buildFarmScenarios i c b).
         (row_sn9PlacementPerCycle r \<noteq> None \<longleftrightarrow>
            (\<exists>f cap m n. row_farms r = Some f \<and> 0 < f
                \<and> sn10FarmCapacity i = Some cap \<and> 0 < cap
                \<and> mFraction i c = Some m \<and> 0 \<le> m \<and> m < 1
                \<and> sn7CyclesPerYear b = Some n \<and> 0 < n))
       \<and> (\<forall>p. row_sn9PlacementPerCycle r = Some p \<longrightarrow>
            (\<exists>f cap. row_farms r = Some f \<and> sn10FarmCapacity i = Some cap \<and> p = f * cap))"
  proof
    fix r
    assume "r \<in> set (buildFarmScenarios i c b)"
    then obtain l f where r: "r = ?mk l f"
      unfolding build_rows by auto
    show "(row_sn9PlacementPerCycle r \<noteq> None \<longleftrightarrow>
            (\<exists>f cap m n. row_farms r = Some f \<and> 0 < f
                \<and> sn10FarmCapacity i = Some cap \<and> 0 < cap
                \<and> mFraction i c = Some m \<and> 0 \<le> m \<and> m < 1
                \<and> sn7CyclesPerYear b = Some n \<and> 0 < n))
       \<and> (\<forall>p. row_sn9PlacementPerCycle r = Some p \<longrightarrow>
            (\<exists>f cap. row_farms r = Some f \<and> sn10FarmCapacity i = Some cap \<and> p = f * cap))"
      unfolding r by (rule own)
  qed
  have ex: "sn14NumberOfFarms b = Some 2.4 \<longrightarrow>
         map row_farms (buildFarmScenarios i c b) = [Some 2.4, Some 3, Some 2]"
  proof
    assume "sn14NumberOfFarms b = Some 2.4"
    then show "map row_farms (buildFarmScenarios i c b) = [Some 2.4, Some 3, Some 2]"
      unfolding fms by simp
  qed
  show ?thesis
    by (rule conjI [OF len conjI [OF lab conjI [OF fms conjI [OF rows ex]]]])
qed

lemma six_ton_results:
  "computeBroilerResults (small_plan_inputs\<lparr>sn1TargetBroilerMeat := Some 6\<rparr>) example_config =
     \<lparr> sn3HarvestBirdsNumber = Some 2400, sn5OverallPlacement = Some 3000,
       sn7CyclesPerYear = Some 5, sn8HarvestPerCycle = Some 480,
       sn9PlacementPerCycle = Some 600, sn13Density = Some (5 / 2),
       sn14NumberOfFarms = Some 2.4, hasDivisionByZero = False \<rparr>"
  by (simp add: compute_blocks Let_def fst_SN3 snd_SN3 fst_SN5 snd_SN5 fst_SN7 snd_SN7
        fst_SN8 snd_SN8 fst_SN9 snd_SN9 fst_SN13 snd_SN13 fst_SN14 snd_SN14
        mortalityFraction_def mortalityValid_def small_plan_inputs_def example_config_def)

lemma six_ton_rows:
  "buildFarmScenarios (small_plan_inputs\<lparr>sn1TargetBroilerMeat := Some 6\<rparr>) example_config
     (computeBroilerResults (small_plan_inputs\<lparr>sn1TargetBroilerMeat := Some 6\<rparr>) example_config) =
   [ \<lparr> row_label = ''Base (exact farms)'', row_farms = Some 2.4,
       row_sn1TargetBroilerMeat = Some 6, row_sn3HarvestBirdsNumber = Some 2400,
       row_sn9PlacementPerCycle = Some 600 \<rparr>,
     \<lparr> row_label = ''Rounded up farms'', row_farms = Some 3,
       row_sn1TargetBroilerMeat = Some 7.5, row_sn3HarvestBirdsNumber = Some 3000,
       row_sn9PlacementPerCycle = Some 750 \<rparr>,
     \<lparr> row_label = ''Floored farms'', row_farms = Some 2,
       row_sn1TargetBroilerMeat = Some 5, row_sn3HarvestBirdsNumber = Some 2000,
       row_sn9PlacementPerCycle = Some 500 \<rparr> ]"
  unfolding six_ton_results build_rows
  by (simp add: makeRow_Some invertSn3ToSn1_def mFraction_def small_plan_inputs_def
        example_config_def)

theorem C6_witness:
  "map row_farms (buildFarmScenarios (small_plan_inputs\<lparr>sn1TargetBroilerMeat := Some 6\<rparr>)
       example_config
       (computeBroilerResults (small_plan_inputs\<lparr>sn1TargetBroilerMeat := Some 6\<rparr>)
          example_config)) = [Some 2.4, Some 3, Some 2]
   \<and> map row_sn9PlacementPerCycle
       (buildFarmScenarios (small_plan_inputs\<lparr>sn1TargetBroilerMeat := Some 6\<rparr>)
       example_config
       (computeBroilerResults (small_plan_inputs\<lparr>sn1TargetBroilerMeat := Some 6\<rparr>)
          example_config)) = [Some (2.4 * 250), Some (3 * 250), Some (2 * 250)]
   \<and> sn10FarmCapacity (small_plan_inputs\<lparr>sn1TargetBroilerMeat := Some 6\<rparr>) = Some 250"
proof -
  have f: "sn14NumberOfFarms
      (computeBroilerResults (small_plan_inputs\<lparr>sn1TargetBroilerMeat := Some 6\<rparr>)
          example_config) = Some 2.4"
    by (simp add: six_ton_results)
  have p: "map row_sn9PlacementPerCycle
       (buildFarmScenarios (small_plan_inputs\<lparr>sn1TargetBroilerMeat := Some 6\<rparr>)
       example_config
       (computeBroilerResults (small_plan_inputs\<lparr>sn1TargetBroilerMeat := Some 6\<rparr>)
          example_config)) = [Some (2.4 * 250), Some (3 * 250), Some (2 * 250)]"
    by (simp add: six_ton_rows)
  have k: "sn10FarmCapacity (small_plan_inputs\<lparr>sn1TargetBroilerMeat := Some 6\<rparr>) = Some 250"
    by (simp add: small_plan_inputs_def)
  show ?thesis
    using C6_three_rows_own_farm_count
            [where i = "small_plan_inputs\<lparr>sn1TargetBroilerMeat := Some 6\<rparr>"
               and c = example_config
               and b = "computeBroilerResults
                  (small_plan_inputs\<lparr>sn1TargetBroilerMeat := Some 6\<rparr>) example_config"]
          f p k
    by blast
qed

subsection \<open>Negative mortality in percent mode\<close>

lemma blocks_ignore_mortality:
  "block_SN3 (i\<lparr>sn4PlannedMortality := v\<rparr>) c h = block_SN3 i c h"
  "block_SN7 (i\<lparr>sn4PlannedMortality := v\<rparr>) c h = block_SN7 i c h"
  "block_SN13 (i\<lparr>sn4PlannedMortality := v\<rparr>) h = block_SN13 i h"
  "block_SN14 s (i\<lparr>sn4PlannedMortality := v\<rparr>) h = block_SN14 s i h"
  by (simp_all add: block_SN3_def block_SN7_def block_SN13_def block_SN14_def
        cong: option.case_cong if_cong)

lemma negative_percent_clamped:
  assumes "mortalityAsPercent c" and "sn4PlannedMortality i = Some raw" and "raw < 0"
  shows "mortalityFraction i c = Some 0"
    and "mortalityFraction (i\<lparr>sn4PlannedMortality := Some 0\<rparr>) c = Some 0"
    and "mFraction i c = Some (raw / 100)"
  using assms by (simp_all add: mortalityFraction_def mFraction_def)

lemma compute_same_as_zero_mortality:
  assumes "mortalityAsPercent c" and "sn4PlannedMortality i = Some raw" and "raw < 0"
  shows "computeBroilerResults i c = computeBroilerResults (i\<lparr>sn4PlannedMortality := Some 0\<rparr>) c"
  unfolding compute_blocks blocks_ignore_mortality negative_percent_clamped [OF assms] ..

lemma zero_mortality_chain:
  assumes "mortalityFraction i c = Some 0"
  shows "sn5OverallPlacement (computeBroilerResults i c) = sn3HarvestBirdsNumber (computeBroilerResults i c)"
    and "sn9PlacementPerCycle (computeBroilerResults i c) = sn8HarvestPerCycle (computeBroilerResults i c)"
proof -
  show "sn5OverallPlacement (computeBroilerResults i c) = sn3HarvestBirdsNumber (computeBroilerResults i c)"
    unfolding compute_sn5 [of i c] assms
    by (cases "sn3HarvestBirdsNumber (computeBroilerResults i c)") simp_all
  show "sn9PlacementPerCycle (computeBroilerResults i c) = sn8HarvestPerCycle (computeBroilerResults i c)"
    unfolding compute_sn9 [of i c] assms
    by (cases "sn8HarvestPerCycle (computeBroilerResults i c)") simp_all
qed

lemma chain_populated:
  assumes "mortalityFraction i c = Some 0"
      and "sn3HarvestBirdsNumber (computeBroilerResults i c) = Some s3"
      and "sn7CyclesPerYear (computeBroilerResults i c) = Some s7" and "s7 \<noteq> 0"
      and "sn10FarmCapacity i = Some cap" and "cap \<noteq> 0"
  shows "sn5OverallPlacement (computeBroilerResults i c) = Some s3
       \<and> sn8HarvestPerCycle (computeBroilerResults i c) = Some (s3 / s7)
       \<and> sn9PlacementPerCycle (computeBroilerResults i c) = Some (s3 / s7)
       \<and> sn14NumberOfFarms (computeBroilerResults i c) = Some (s3 / s7 / cap)"
proof -
  have s8: "sn8HarvestPerCycle (computeBroilerResults i c) = Some (s3 / s7)"
    unfolding compute_sn8 [of i c] assms(2,3) using assms(4) by simp
  have s9: "sn9PlacementPerCycle (computeBroilerResults i c) = Some (s3 / s7)"
    unfolding zero_mortality_chain(2) [OF assms(1)] by (rule s8)
  have s14: "sn14NumberOfFarms (computeBroilerResults i c) = Some (s3 / s7 / cap)"
    unfolding compute_sn14 [of i c] s9 assms(5) using assms(6) by simp
  have s5: "sn5OverallPlacement (computeBroilerResults i c) = Some s3"
    unfolding zero_mortality_chain(1) [OF assms(1)] by (rule assms(2))
  show ?thesis
    using s5 s8 s9 s14 by blast
qed

lemma rows_null_negative_fraction:
  assumes "mFraction i c = Some m" and "m < 0"
  shows "\<forall>r \<in> set (buildFarmScenarios i c b).
           row_sn1TargetBroilerMeat r = None
         \<and> row_sn3HarvestBirdsNumber r = None
         \<and> row_sn9PlacementPerCycle r = None"
proof
  fix r
  assume "r \<in> set (buildFarmScenarios i c b)"
  then obtain l f where r: "r = makeRowForFarms i c (sn10FarmCapacity i) (mFraction i c)
      (sn7CyclesPerYear b) l f"
    unfolding build_rows by auto
  have g: "\<not> (\<exists>x cap m' n. f = Some x \<and> 0 < x \<and> sn10FarmCapacity i = Some cap \<and> 0 < cap
               \<and> mFraction i c = Some m' \<and> 0 \<le> m' \<and> m' < 1
               \<and> sn7CyclesPerYear b = Some n \<and> 0 < n)"
    using assms by auto
  show "row_sn1TargetBroilerMeat r = None
         \<and> row_sn3HarvestBirdsNumber r = None
         \<and> row_sn9PlacementPerCycle r = None"
    unfolding r by (rule skipped_fields [OF g])
qed

text \<open>
  Claim C10. With \<open>mortalityAsPercent\<close> on and a negative planned mortality,
  \<open>computeBroilerResults\<close> takes the mortality fraction to be 0: it returns what
  it returns for a mortality of 0, overall placement equals the birds count and
  placement per cycle equals harvest per cycle, and with birds, non-zero cycles
  per year and a non-zero capacity the whole chain down to the farms is present.
  \<open>buildFarmScenarios\<close> computes its own fraction \<open>raw / 100\<close>, which is negative,
  so the guard of every row fails: for any base results, all three rows have null
  for the target, the birds and the placement per cycle.
\<close>

theorem C10_negative_percent_mortality:
  assumes "mortalityAsPercent c" and "sn4PlannedMortality i = Some raw" and "raw < 0"
  shows "mortalityFraction i c = Some 0
       \<and> computeBroilerResults i c
           = computeBroilerResults (i\<lparr>sn4PlannedMortality := Some 0\<rparr>) c
       \<and> sn5OverallPlacement (computeBroilerResults i c)
           = sn3HarvestBirdsNumber (computeBroilerResults i c)
       \<and> sn9PlacementPerCycle (computeBroilerResults i c)
           = sn8HarvestPerCycle (computeBroilerResults i c)
       \<and> (\<forall>s3 s7 cap.
            sn3HarvestBirdsNumber (computeBroilerResults i c) = Some s3
          \<and> sn7CyclesPerYear (computeBroilerResults i c) = Some s7 \<and> s7 \<noteq> 0
          \<and> sn10FarmCapacity i = Some cap \<and> cap \<noteq> 0 \<longrightarrow>
            sn5OverallPlacement (computeBroilerResults i c) = Some s3
          \<and> sn8HarvestPerCycle (computeBroilerResults i c) = Some (s3 / s7)
          \<and> sn9PlacementPerCycle (computeBroilerResults i c) = Some (s3 / s7)
          \<and> sn14NumberOfFarms (computeBroilerResults i c) = Some (s3 / s7 / cap))
       \<and> mFraction i c = Some (raw / 100) \<and> raw / 100 < 0
       \<and> length (buildFarmScenarios i c b) = 3
       \<and> (\<forall>r \<in> set (buildFarmScenarios i c b).
             row_sn1TargetBroilerMeat r = None
           \<and> row_sn3HarvestBirdsNumber r = None
           \<and> row_sn9PlacementPerCycle r = None)"
proof -
  note cl = negative_percent_clamped [OF assms]
  have neg: "raw / 100 < 0"
    using assms(3) by simp
  have len: "length (buildFarmScenarios i c b) = 3"
    by (simp add: build_rows)
  show ?thesis
    using cl(1) compute_same_as_zero_mortality [OF assms] zero_mortality_chain [OF cl(1)]
      chain_populated [OF cl(1)] cl(3) neg len rows_null_negative_fraction [OF cl(3) neg, of b]
    by blast
qed

lemma negative_mortality_results:
  "computeBroilerResults (example_inputs\<lparr>sn4PlannedMortality := Some (- 5)\<rparr>) example_config =
     \<lparr> sn3HarvestBirdsNumber = Some (2500000 / 11),
       sn5OverallPlacement = Some (2500000 / 11),
       sn7CyclesPerYear = Some (365 / 42),
       sn8HarvestPerCycle = Some (21000000 / 803),
       sn9PlacementPerCycle = Some (21000000 / 803),
       sn13Density = Some (25 / 6),
       sn14NumberOfFarms = Some (1050 / 803),
       hasDivisionByZero = False \<rparr>"
  by (simp add: compute_blocks Let_def fst_SN3 snd_SN3 fst_SN5 snd_SN5 fst_SN7 snd_SN7
        fst_SN8 snd_SN8 fst_SN9 snd_SN9 fst_SN13 snd_SN13 fst_SN14 snd_SN14
        mortalityFraction_def mortalityValid_def example_inputs_def example_config_def)

theorem C10_witness:
  "computeBroilerResults (example_inputs\<lparr>sn4PlannedMortality := Some (- 5)\<rparr>) example_config =
     \<lparr> sn3HarvestBirdsNumber = Some (2500000 / 11),
       sn5OverallPlacement = Some (2500000 / 11),
       sn7CyclesPerYear = Some (365 / 42),
       sn8HarvestPerCycle = Some (21000000 / 803),
       sn9PlacementPerCycle = Some (21000000 / 803),
       sn13Density = Some (25 / 6),
       sn14NumberOfFarms = Some (1050 / 803),
       hasDivisionByZero = False \<rparr>
   \<and> map row_farms
       (buildFarmScenarios (example_inputs\<lparr>sn4PlannedMortality := Some (- 5)\<rparr>) example_config
          (computeBroilerResults (example_inputs\<lparr>sn4PlannedMortality := Some (- 5)\<rparr>)
             example_config)) = [Some (1050 / 803), Some 2, Some 1]
   \<and> map row_sn1TargetBroilerMeat
       (buildFarmScenarios (example_inputs\<lparr>sn4PlannedMortality := Some (- 5)\<rparr>) example_config
          (computeBroilerResults (example_inputs\<lparr>sn4PlannedMortality := Some (- 5)\<rparr>)
             example_config)) = [None, None, None]
   \<and> map row_sn3HarvestBirdsNumber
       (buildFarmScenarios (example_inputs\<lparr>sn4PlannedMortality := Some (- 5)\<rparr>) example_config
          (computeBroilerResults (example_inputs\<lparr>sn4PlannedMortality := Some (- 5)\<rparr>)
             example_config)) = [None, None, None]
   \<and> map row_sn9PlacementPerCycle
       (buildFarmScenarios (example_inputs\<lparr>sn4PlannedMortality := Some (- 5)\<rparr>) example_config
          (computeBroilerResults (example_inputs\<lparr>sn4PlannedMortality := Some (- 5)\<rparr>)
             example_config)) = [None, None, None]"
proof -
  let ?i = "example_inputs\<lparr>sn4PlannedMortality := Some (- 5)\<rparr>"
  let ?b = "computeBroilerResults ?i example_config"
  have h: "mortalityAsPercent example_config" "sn4PlannedMortality ?i = Some (- 5)" "(- 5 :: real) < 0"
    by (simp_all add: example_config_def)
  have f: "map row_farms (buildFarmScenarios ?i example_config ?b)
      = [Some (1050 / 803), Some 2, Some 1]"
    unfolding negative_mortality_results build_rows by (simp add: makeRow_farms)
  have n: "\<forall>r \<in> set (buildFarmScenarios ?i example_config ?b).
             row_sn1TargetBroilerMeat r = None
           \<and> row_sn3HarvestBirdsNumber r = None
           \<and> row_sn9PlacementPerCycle r = None"
    using C10_negative_percent_mortality [OF h, of ?b] by blast
  have m: "map row_sn1TargetBroilerMeat (buildFarmScenarios ?i example_config ?b) = [None, None, None]
     \<and> map row_sn3HarvestBirdsNumber (buildFarmScenarios ?i example_config ?b) = [None, None, None]
     \<and> map row_sn9PlacementPerCycle (buildFarmScenarios ?i example_config ?b) = [None, None, None]"
    using n unfolding build_rows by simp
  show ?thesis
    using negative_mortality_results f m by blast
qed

end
